theory Spec2Isabelle
  imports Complex_Main "HOL-Library.Char_ord" "HOL-Library.List_Lexorder"
    "HOL-Library.Product_Lexorder" "HOL-Library.Multiset"
begin

section \<open>Data frames\<close>

text \<open>
  The dashboard script \<^verbatim>\<open>streamlit_app.py\<close> works on pandas data frames. A cell is a
  null (\<^verbatim>\<open>None\<close>/\<^verbatim>\<open>NaN\<close>/\<^verbatim>\<open>NaT\<close>), a string, a number, a boolean or a timestamp (seconds).
  Numbers are exact rationals: the rounding of floating-point sums is not modelled.
\<close>

datatype val = Null | Str string | Num rat | Bool bool | Time int

datatype error =
    KeyError string
  | TypeError
  | ValueError
  | ZeroDivisionError
  | AttributeError string
  | QueryError string

text \<open>
  Cells are ordered so that frames can be sorted: nulls first, then strings (by character
  code, as Python compares them), numbers, booleans and timestamps. A warehouse column
  holds one type besides null, so only the order within a type and the place of null matter.
\<close>

fun rank :: "val \<Rightarrow> nat \<times> string \<times> rat \<times> int" where
  "rank Null = (0, [], 0, 0)"
| "rank (Str s) = (1, s, 0, 0)"
| "rank (Num x) = (2, [], x, 0)"
| "rank (Bool b) = (3, [], 0, if b then 1 else 0)"
| "rank (Time t) = (4, [], 0, t)"

instantiation val :: linorder
begin

definition less_eq_val :: "val \<Rightarrow> val \<Rightarrow> bool" where
  "less_eq_val a b = (rank a \<le> rank b)"

definition less_val :: "val \<Rightarrow> val \<Rightarrow> bool" where
  "less_val a b = (rank a < rank b)"

instance
proof
  fix x y z :: val
  show "(x < y) = (x \<le> y \<and> \<not> y \<le> x)"
    unfolding less_eq_val_def less_val_def by (rule less_le_not_le)
  show "x \<le> x"
    unfolding less_eq_val_def by simp
  show "x \<le> y \<Longrightarrow> y \<le> z \<Longrightarrow> x \<le> z"
    unfolding less_eq_val_def by (rule order_trans)
  show "x \<le> y \<or> y \<le> x"
    unfolding less_eq_val_def by (rule linear)
  assume "x \<le> y" and "y \<le> x"
  then have "rank x = rank y"
    unfolding less_eq_val_def by (rule antisym)
  then show "x = y"
    by (cases x; cases y) (auto split: if_splits)
qed

end

text \<open>
  A frame has its column labels in order and its rows in order; a row holds one cell per
  column. A row that is too short reads as null in the missing positions.
\<close>

record frame =
  columns :: "string list"
  rows :: "val list list"

definition empty_frame :: frame where
  \<comment> \<open>\<^verbatim>\<open>pd.DataFrame()\<close>\<close>
  "empty_frame = \<lparr>columns = [], rows = []\<rparr>"

definition frame_empty :: "frame \<Rightarrow> bool" where
  \<comment> \<open>\<^verbatim>\<open>df.empty\<close>: some axis has length 0\<close>
  "frame_empty df = (columns df = [] \<or> rows df = [])"

definition has_col :: "frame \<Rightarrow> string \<Rightarrow> bool" where
  \<comment> \<open>\<^verbatim>\<open>c in df.columns\<close>\<close>
  "has_col df c = (c \<in> set (columns df))"

fun index_of :: "'a \<Rightarrow> 'a list \<Rightarrow> nat" where
  "index_of c [] = 0"
| "index_of c (x # xs) = (if x = c then 0 else Suc (index_of c xs))"

definition cell :: "val list \<Rightarrow> nat \<Rightarrow> val" where
  "cell r i = (if i < length r then r ! i else Null)"

definition col_values :: "frame \<Rightarrow> string \<Rightarrow> val list" where
  "col_values df c = map (\<lambda>r. cell r (index_of c (columns df))) (rows df)"

definition column :: "frame \<Rightarrow> string \<Rightarrow> error + val list" where
  \<comment> \<open>\<^verbatim>\<open>df[c]\<close>: raises KeyError when the label is absent\<close>
  "column df c = (if has_col df c then Inr (col_values df c) else Inl (KeyError c))"

definition select_rows :: "frame \<Rightarrow> (val list \<Rightarrow> bool) \<Rightarrow> frame" where
  \<comment> \<open>\<^verbatim>\<open>df[mask]\<close>: a new frame with the rows the mask keeps, in order\<close>
  "select_rows df p = \<lparr>columns = columns df, rows = filter p (rows df)\<rparr>"

definition copy :: "frame \<Rightarrow> frame" where
  \<comment> \<open>\<^verbatim>\<open>df.copy()\<close>: a new object with the same labels and cells\<close>
  "copy df = \<lparr>columns = columns df, rows = rows df\<rparr>"

definition head :: "nat \<Rightarrow> frame \<Rightarrow> frame" where
  \<comment> \<open>\<^verbatim>\<open>df.head(n)\<close>\<close>
  "head n df = \<lparr>columns = columns df, rows = take n (rows df)\<rparr>"

definition len :: "frame \<Rightarrow> nat" where
  \<comment> \<open>\<^verbatim>\<open>len(df)\<close>\<close>
  "len df = length (rows df)"

section \<open>Column aggregation\<close>

text \<open>
  \<^verbatim>\<open>Series.sum()\<close>, \<^verbatim>\<open>.mean()\<close> and \<^verbatim>\<open>.count()\<close> skip nulls; a boolean counts as 0 or 1.
  The empty sum is 0 and the empty mean is NaN (null here). A string or timestamp cell in
  a column that is summed is reported as a type error: the script formats every such
  result as a number.
\<close>

fun summable_cell :: "val \<Rightarrow> bool" where
  "summable_cell Null = True"
| "summable_cell (Num x) = True"
| "summable_cell (Bool b) = True"
| "summable_cell (Str s) = False"
| "summable_cell (Time t) = False"

fun num_of :: "val \<Rightarrow> rat" where
  "num_of (Num x) = x"
| "num_of (Bool b) = (if b then 1 else 0)"
| "num_of Null = 0"
| "num_of (Str s) = 0"
| "num_of (Time t) = 0"

definition total :: "val list \<Rightarrow> rat" where
  "total vs = sum_list (map num_of vs)"

definition series_count :: "val list \<Rightarrow> nat" where
  "series_count vs = length (filter (\<lambda>v. v \<noteq> Null) vs)"

definition series_sum :: "val list \<Rightarrow> error + rat" where
  "series_sum vs = (if list_all summable_cell vs then Inr (total vs) else Inl TypeError)"

definition series_mean :: "val list \<Rightarrow> error + val" where
  "series_mean vs =
     (if \<not> list_all summable_cell vs then Inl TypeError
      else if series_count vs = 0 then Inr Null
      else Inr (Num (total vs / of_nat (series_count vs))))"

text \<open>
  The model adds exactly. pandas adds a float column in float64 and an integer column in
  int64; both add without rounding and without overflow when every amount is a whole number
  and the absolute values sum to less than \<open>2 ^ 53\<close>, whatever the order of the
  additions. On such columns the sums of the model are the sums of pandas.
\<close>

definition whole_amount :: "val \<Rightarrow> bool" where
  "whole_amount v = (case v of Null \<Rightarrow> True | Num x \<Rightarrow> of_int \<lfloor>x\<rfloor> = x | _ \<Rightarrow> False)"

definition exact_amounts :: "val list \<Rightarrow> bool" where
  "exact_amounts vs =
     (list_all whole_amount vs \<and> sum_list (map (\<lambda>v. \<bar>num_of v\<bar>) vs) < 2 ^ 53)"

definition py_truediv :: "rat \<Rightarrow> rat \<Rightarrow> error + rat" where
  \<comment> \<open>Python's \<^verbatim>\<open>a / b\<close>\<close>
  "py_truediv a b = (if b = 0 then Inl ZeroDivisionError else Inr (a / b))"

definition bind :: "error + 'a \<Rightarrow> ('a \<Rightarrow> error + 'b) \<Rightarrow> error + 'b" where
  \<comment> \<open>sequencing: a raised exception skips the rest\<close>
  "bind m f = (case m of Inl e \<Rightarrow> Inl e | Inr x \<Rightarrow> f x)"

section \<open>Anomaly rate\<close>

text \<open>
  Line 347 and line 352:
  \<^verbatim>\<open>
  anomalies_count = orders_df['is_anomaly'].sum() if 'is_anomaly' in orders_df.columns else 0
  delta=f"{(anomalies_count/total_orders*100):.1f}%" if total_orders > 0 else "0%"
  \<close>
  Lines 751 and 759:
  \<^verbatim>\<open>
  anomalies_df = orders_df[orders_df['is_anomaly'] == True].copy()
  anomaly_rate = (len(anomalies_df) / len(orders_df)) * 100 if len(orders_df) > 0 else 0
  \<close>
  Both rates are percentages: the quotient times 100.
\<close>

definition anomalies_count :: "frame \<Rightarrow> error + rat" where
  "anomalies_count orders_df =
     (if has_col orders_df ''is_anomaly''
      then bind (column orders_df ''is_anomaly'') series_sum
      else Inr 0)"

definition anomaly_delta :: "rat \<Rightarrow> nat \<Rightarrow> error + rat" where
  "anomaly_delta anomalies total_orders =
     (if total_orders > 0
      then bind (py_truediv anomalies (of_nat total_orders)) (\<lambda>q. Inr (q * 100))
      else Inr 0)"

fun is_true :: "val \<Rightarrow> bool" where
  \<comment> \<open>\<^verbatim>\<open>cell == True\<close>; in Python \<^verbatim>\<open>1 == True\<close>\<close>
  "is_true (Bool b) = b"
| "is_true (Num x) = (x = 1)"
| "is_true v = False"

definition select_anomalies :: "frame \<Rightarrow> error + frame" where
  "select_anomalies orders_df =
     (if has_col orders_df ''is_anomaly''
      then Inr (copy (select_rows orders_df
                  (\<lambda>r. is_true (cell r (index_of ''is_anomaly'' (columns orders_df))))))
      else Inl (KeyError ''is_anomaly''))"

definition anomaly_rate :: "frame \<Rightarrow> frame \<Rightarrow> error + rat" where
  "anomaly_rate anomalies_df orders_df =
     (if len orders_df > 0
      then bind (py_truediv (of_nat (len anomalies_df)) (of_nat (len orders_df)))
             (\<lambda>q. Inr (q * 100))
      else Inr 0)"

definition boolean_cell :: "val \<Rightarrow> bool" where
  \<comment> \<open>a cell of a nullable BOOL column\<close>
  "boolean_cell v = (case v of Null \<Rightarrow> True | Bool b \<Rightarrow> True | _ \<Rightarrow> False)"

section \<open>Filter engine\<close>

text \<open>
  Lines 989-993:
  \<^verbatim>\<open>
  filtered_df = orders_df.copy()
  if categories_filter:
      filtered_df = filtered_df[filtered_df['category'].isin(categories_filter)]
  if locations_filter:
      filtered_df = filtered_df[filtered_df['location'].isin(locations_filter)]
  \<close>
\<close>

definition filter_isin :: "frame \<Rightarrow> string \<Rightarrow> val list \<Rightarrow> error + frame" where
  \<comment> \<open>\<^verbatim>\<open>df[df[c].isin(allowed)]\<close>\<close>
  "filter_isin df c allowed =
     (if has_col df c
      then Inr (select_rows df (\<lambda>r. cell r (index_of c (columns df)) \<in> set allowed))
      else Inl (KeyError c))"

definition apply_filters :: "frame \<Rightarrow> val list \<Rightarrow> val list \<Rightarrow> error + frame" where
  "apply_filters orders_df categories_filter locations_filter =
     (case (if categories_filter \<noteq> []
            then filter_isin (copy orders_df) ''category'' categories_filter
            else Inr (copy orders_df)) of
        Inl e \<Rightarrow> Inl e
      | Inr filtered_df \<Rightarrow>
          if locations_filter \<noteq> []
          then filter_isin filtered_df ''location'' locations_filter
          else Inr filtered_df)"

section \<open>Grouping\<close>

text \<open>
  \<^verbatim>\<open>df.groupby(keys).agg({column: functions, ...}).reset_index()\<close>. The group keys are
  the distinct key tuples of the rows, in ascending order; a row with a null in a key
  column belongs to no group (pandas drops it). Every column named in the dictionary must
  exist, whatever function is asked of it: pandas raises
  \<^verbatim>\<open>KeyError: "Column(s) [...] do not exist"\<close> otherwise. The result has the key
  columns first, then one column per (column, function) pair.
\<close>

datatype aggfun = Sum | Mean | Count

definition aggregate :: "aggfun \<Rightarrow> val list \<Rightarrow> error + val" where
  "aggregate f vs =
     (case f of
        Sum \<Rightarrow> bind (series_sum vs) (\<lambda>x. Inr (Num x))
      | Mean \<Rightarrow> series_mean vs
      | Count \<Rightarrow> Inr (Num (of_nat (series_count vs))))"

fun aggfun_name :: "aggfun \<Rightarrow> string" where
  "aggfun_name Sum = ''sum''"
| "aggfun_name Mean = ''mean''"
| "aggfun_name Count = ''count''"

fun map_err :: "('a \<Rightarrow> error + 'b) \<Rightarrow> 'a list \<Rightarrow> error + 'b list" where
  \<comment> \<open>apply in order; the first exception ends the computation\<close>
  "map_err f [] = Inr []"
| "map_err f (x # xs) = bind (f x) (\<lambda>y. bind (map_err f xs) (\<lambda>ys. Inr (y # ys)))"

definition key_of :: "frame \<Rightarrow> string list \<Rightarrow> val list \<Rightarrow> val list" where
  "key_of df keys r = map (\<lambda>k. cell r (index_of k (columns df))) keys"

definition group_keys :: "frame \<Rightarrow> string list \<Rightarrow> val list list" where
  "group_keys df keys =
     sort (remdups (filter (\<lambda>g. Null \<notin> set g) (map (key_of df keys) (rows df))))"

definition group_rows :: "frame \<Rightarrow> string list \<Rightarrow> val list \<Rightarrow> val list list" where
  "group_rows df keys g = filter (\<lambda>r. key_of df keys r = g) (rows df)"

definition agg_pairs :: "(string \<times> aggfun list) list \<Rightarrow> (string \<times> aggfun) list" where
  "agg_pairs spec = concat (map (\<lambda>(c, fs). map (Pair c) fs) spec)"

definition agg_row :: "frame \<Rightarrow> (string \<times> aggfun list) list \<Rightarrow> val list list \<Rightarrow> error + val list" where
  "agg_row df spec grp =
     map_err (\<lambda>(c, f). aggregate f (map (\<lambda>r. cell r (index_of c (columns df))) grp))
       (agg_pairs spec)"

definition groupby_agg ::
  "frame \<Rightarrow> string list \<Rightarrow> (string \<times> aggfun list) list \<Rightarrow> error + frame" where
  "groupby_agg df keys spec =
     (case filter (\<lambda>k. \<not> has_col df k) keys of
        k # _ \<Rightarrow> Inl (KeyError k)
      | [] \<Rightarrow>
         (case filter (\<lambda>c. \<not> has_col df c) (map fst spec) of
            c # _ \<Rightarrow> Inl (KeyError c)
          | [] \<Rightarrow>
             bind (map_err (\<lambda>g. bind (agg_row df spec (group_rows df keys g))
                                  (\<lambda>vs. Inr (g @ vs)))
                     (group_keys df keys))
               (\<lambda>rs. Inr \<lparr>columns = keys @ map (\<lambda>(c, f). c @ ''.'' @ aggfun_name f)
                                             (agg_pairs spec),
                           rows = rs\<rparr>)))"

definition set_columns :: "string list \<Rightarrow> frame \<Rightarrow> error + frame" where
  \<comment> \<open>\<^verbatim>\<open>df.columns = names\<close>: the number of names must be the number of columns\<close>
  "set_columns names df =
     (if length names = length (columns df) then Inr (df\<lparr>columns := names\<rparr>)
      else Inl ValueError)"

definition sort_values_desc :: "string \<Rightarrow> frame \<Rightarrow> error + frame" where
  \<comment> \<open>\<^verbatim>\<open>df.sort_values(c, ascending=False)\<close>; rows with equal keys keep their order\<close>
  "sort_values_desc c df =
     (if has_col df c
      then Inr (df\<lparr>rows := rev (sort_key (\<lambda>r. cell r (index_of c (columns df)))
                                  (rev (rows df)))\<rparr>)
      else Inl (KeyError c))"

section \<open>Headline sums\<close>

text \<open>
  Lines 334 and 348:
  \<^verbatim>\<open>
  total_revenue = orders_df['purchase_amount_usd'].sum() if 'purchase_amount_usd' in orders_df.columns else 0
  total_profit = orders_df['estimated_profit_usd'].sum() if 'estimated_profit_usd' in orders_df.columns else 0
  \<close>
\<close>

definition total_revenue :: "frame \<Rightarrow> error + rat" where
  "total_revenue orders_df =
     (if has_col orders_df ''purchase_amount_usd''
      then bind (column orders_df ''purchase_amount_usd'') series_sum
      else Inr 0)"

definition total_profit :: "frame \<Rightarrow> error + rat" where
  "total_profit orders_df =
     (if has_col orders_df ''estimated_profit_usd''
      then bind (column orders_df ''estimated_profit_usd'') series_sum
      else Inr 0)"

section \<open>Segment revenue and VIP-Premium tables\<close>

text \<open>
  Lines 831-836:
  \<^verbatim>\<open>
  revenue_by_segment = orders_df.groupby('customer_segment').agg({
      'purchase_amount_usd': ['sum', 'mean', 'count'],
      'estimated_profit_usd': 'sum' if 'estimated_profit_usd' in orders_df.columns else 'count'
  }).reset_index()
  revenue_by_segment.columns = ['segment', 'total_revenue', 'avg_revenue', 'count', 'total_profit']
  revenue_by_segment = revenue_by_segment.sort_values('total_revenue', ascending=False)
  \<close>
  The conditional picks the function, but the dictionary names the column
  \<^verbatim>\<open>estimated_profit_usd\<close> in both branches.
\<close>

definition revenue_by_segment :: "frame \<Rightarrow> error + frame" where
  "revenue_by_segment orders_df =
     bind (groupby_agg orders_df [''customer_segment'']
             [(''purchase_amount_usd'', [Sum, Mean, Count]),
              (''estimated_profit_usd'',
                 [if has_col orders_df ''estimated_profit_usd'' then Sum else Count])])
       (\<lambda>t. bind (set_columns
                     [''segment'', ''total_revenue'', ''avg_revenue'', ''count'', ''total_profit''] t)
               (sort_values_desc ''total_revenue''))"

text \<open>
  Lines 685-686 and 703-708:
  \<^verbatim>\<open>
  vip_premium_df = orders_df[(orders_df['customer_segment'] == 'VIP') &
                            (orders_df['amount_category'] == 'Premium')].copy()
  vip_category = vip_premium_df.groupby('category').agg({
      'purchase_amount_usd': ['count', 'sum', 'mean'],
      'estimated_clv': 'mean' if 'estimated_clv' in vip_premium_df.columns else 'count'
  }).reset_index()
  vip_category.columns = ['category', 'count', 'total_revenue', 'avg_amount', 'avg_clv']
  vip_category = vip_category.sort_values('total_revenue', ascending=False)
  \<close>
\<close>

definition select_vip_premium :: "frame \<Rightarrow> error + frame" where
  "select_vip_premium orders_df =
     (if \<not> has_col orders_df ''customer_segment'' then Inl (KeyError ''customer_segment'')
      else if \<not> has_col orders_df ''amount_category'' then Inl (KeyError ''amount_category'')
      else Inr (copy (select_rows orders_df
              (\<lambda>r. cell r (index_of ''customer_segment'' (columns orders_df)) = Str ''VIP''
                 \<and> cell r (index_of ''amount_category'' (columns orders_df)) = Str ''Premium''))))"

definition vip_category :: "frame \<Rightarrow> error + frame" where
  "vip_category vip_premium_df =
     bind (groupby_agg vip_premium_df [''category'']
             [(''purchase_amount_usd'', [Count, Sum, Mean]),
              (''estimated_clv'',
                 [if has_col vip_premium_df ''estimated_clv'' then Mean else Count])])
       (\<lambda>t. bind (set_columns
                     [''category'', ''count'', ''total_revenue'', ''avg_amount'', ''avg_clv''] t)
               (sort_values_desc ''total_revenue''))"



section \<open>Satisfaction pivot\<close>

text \<open>
  Lines 873-876 and 882-894:
  \<^verbatim>\<open>
  satisfaction_by_category = orders_df.groupby(['category', 'satisfaction_level']).agg({
      'purchase_amount_usd': ['count', 'sum']
  }).reset_index()
  satisfaction_by_category.columns = ['category', 'satisfaction_level', 'count', 'revenue']
  pivot_satisfaction = satisfaction_by_category.pivot_table(
      index='category', columns='satisfaction_level', values='count',
      aggfunc='sum', fill_value=0)
  satisfaction_order = ['Very Satisfied', 'Satisfied', 'Neutral', 'Dissatisfied']
  available_levels = [level for level in satisfaction_order if level in pivot_satisfaction.columns]
  if available_levels:
      pivot_satisfaction = pivot_satisfaction[available_levels]
  \<close>
  A pivot table has row labels, column labels and one row of cells per row label. Its
  labels are the values found in the (index, columns) pairs of the input, each in ascending
  order; a pair that does not occur is filled with 0.
\<close>

definition satisfaction_by_category :: "frame \<Rightarrow> error + frame" where
  "satisfaction_by_category orders_df =
     bind (groupby_agg orders_df [''category'', ''satisfaction_level'']
             [(''purchase_amount_usd'', [Count, Sum])])
       (set_columns [''category'', ''satisfaction_level'', ''count'', ''revenue''])"

record pivot =
  index :: "val list"
  pcolumns :: "val list"
  cells :: "val list list"

definition pivot_table_sum :: "frame \<Rightarrow> string \<Rightarrow> string \<Rightarrow> string \<Rightarrow> error + pivot" where
  "pivot_table_sum df idx cols vals =
     (if \<not> has_col df vals then Inl (KeyError vals)
      else if \<not> has_col df idx then Inl (KeyError idx)
      else if \<not> has_col df cols then Inl (KeyError cols)
      else
        let gs = group_keys df [idx, cols];
            is = sort (remdups (map (\<lambda>g. cell g 0) gs));
            cs = sort (remdups (map (\<lambda>g. cell g 1) gs))
        in bind (map_err (\<lambda>i. map_err (\<lambda>c.
                    if [i, c] \<in> set gs
                    then aggregate Sum (map (\<lambda>r. cell r (index_of vals (columns df)))
                                          (group_rows df [idx, cols] [i, c]))
                    else Inr (Num 0)) cs) is)
             (\<lambda>rs. Inr \<lparr>index = is, pcolumns = cs, cells = rs\<rparr>))"

definition select_pivot_columns :: "val list \<Rightarrow> pivot \<Rightarrow> error + pivot" where
  \<comment> \<open>\<^verbatim>\<open>pivot[labels]\<close>: the named columns, in the order asked\<close>
  "select_pivot_columns labels p =
     (case filter (\<lambda>l. l \<notin> set (pcolumns p)) labels of
        _ # _ \<Rightarrow> Inl (KeyError ''columns'')
      | [] \<Rightarrow> Inr \<lparr>index = index p, pcolumns = labels,
                    cells = map (\<lambda>r. map (\<lambda>l. cell r (index_of l (pcolumns p))) labels)
                              (cells p)\<rparr>)"

definition satisfaction_order :: "string list" where
  "satisfaction_order = [''Very Satisfied'', ''Satisfied'', ''Neutral'', ''Dissatisfied'']"

definition order_levels :: "pivot \<Rightarrow> error + pivot" where
  "order_levels pivot_satisfaction =
     (let available_levels =
            filter (\<lambda>level. Str level \<in> set (pcolumns pivot_satisfaction)) satisfaction_order
      in if available_levels \<noteq> []
         then select_pivot_columns (map Str available_levels) pivot_satisfaction
         else Inr pivot_satisfaction)"

definition pivot_satisfaction :: "frame \<Rightarrow> error + pivot" where
  "pivot_satisfaction orders_df =
     bind (satisfaction_by_category orders_df)
       (\<lambda>sbc. bind (pivot_table_sum sbc ''category'' ''satisfaction_level'' ''count'')
                 order_levels)"

definition levels_present :: "frame \<Rightarrow> val list" where
  \<comment> \<open>the satisfaction levels of the orders that have a category\<close>
  "levels_present orders_df =
     map (\<lambda>r. cell r (index_of ''satisfaction_level'' (columns orders_df)))
       (filter (\<lambda>r. cell r (index_of ''category'' (columns orders_df)) \<noteq> Null)
          (rows orders_df))"

section \<open>Result cache\<close>

text \<open>
  Lines 159, 218, 236, 252 and 269 wrap the five fetch functions:
  \<^verbatim>\<open>
  @st.cache_data(ttl=10)
  def fetch_latest_orders(limit=1000): ...
  @st.cache_data(ttl=30)
  def fetch_age_preferences(): ...
  \<close>
  and likewise, with \<^verbatim>\<open>ttl=30\<close>, \<^verbatim>\<open>fetch_gender_preferences\<close>,
  \<^verbatim>\<open>fetch_location_preferences\<close> and \<^verbatim>\<open>fetch_age_gender_category\<close>.
\<close>

datatype fetcher =
    Fetch_latest_orders
  | Fetch_age_preferences
  | Fetch_gender_preferences
  | Fetch_location_preferences
  | Fetch_age_gender_category

fun cache_ttl :: "fetcher \<Rightarrow> rat" where
  \<comment> \<open>the \<^verbatim>\<open>ttl\<close> argument of each decorator, in seconds\<close>
  "cache_ttl Fetch_latest_orders = 10"
| "cache_ttl Fetch_age_preferences = 30"
| "cache_ttl Fetch_gender_preferences = 30"
| "cache_ttl Fetch_location_preferences = 30"
| "cache_ttl Fetch_age_gender_category = 30"

record 'a cache_entry =
  payload :: 'a
  fetched_at :: rat
  entry_ttl :: rat

definition live :: "rat \<Rightarrow> 'a cache_entry \<Rightarrow> bool" where
  "live now e = (now - fetched_at e < entry_ttl e)"

text \<open>
  Modelled from the spec: the cache behind the decorator is Streamlit's and is not part of
  the repository. Section 4.1: if a live entry exists for the query identity, its payload is
  returned without invoking the fetch; otherwise the fetch is invoked and its result is stored
  with the current timestamp and the ttl. A fetch that fails stores nothing and leaves the
  previous entry as it is. The fetch is given by the result it has when run at this moment;
  the number returned beside the outcome counts its invocations (0 or 1).
\<close>

definition get_or_fetch ::
  "'k \<Rightarrow> rat \<Rightarrow> error + 'a \<Rightarrow> rat \<Rightarrow> ('k \<rightharpoonup> 'a cache_entry)
     \<Rightarrow> ((error + 'a) \<times> nat) \<times> ('k \<rightharpoonup> 'a cache_entry)" where
  "get_or_fetch query_id ttl fetch_fn now cache =
     (case cache query_id of
        Some e \<Rightarrow>
          if live now e then ((Inr (payload e), 0), cache)
          else (case fetch_fn of
                  Inl err \<Rightarrow> ((Inl err, 1), cache)
                | Inr v \<Rightarrow> ((Inr v, 1),
                    cache(query_id \<mapsto> \<lparr>payload = v, fetched_at = now, entry_ttl = ttl\<rparr>)))
      | None \<Rightarrow>
          (case fetch_fn of
             Inl err \<Rightarrow> ((Inl err, 1), cache)
           | Inr v \<Rightarrow> ((Inr v, 1),
               cache(query_id \<mapsto> \<lparr>payload = v, fetched_at = now, entry_ttl = ttl\<rparr>))))"

definition clear :: "('k \<rightharpoonup> 'a cache_entry) \<Rightarrow> ('k \<rightharpoonup> 'a cache_entry)" where
  \<comment> \<open>\<^verbatim>\<open>st.cache_data.clear()\<close>\<close>
  "clear cache = Map.empty"

definition cached ::
  "fetcher \<Rightarrow> int list \<Rightarrow> error + 'a \<Rightarrow> rat \<Rightarrow> (fetcher \<times> int list \<rightharpoonup> 'a cache_entry)
     \<Rightarrow> ((error + 'a) \<times> nat) \<times> (fetcher \<times> int list \<rightharpoonup> 'a cache_entry)" where
  \<comment> \<open>a call of a decorated function: the query identity is the function and its arguments\<close>
  "cached f args body now cache = get_or_fetch (f, args) (cache_ttl f) body now cache"

section \<open>Effects\<close>

text \<open>
  What a run of the script does, in order: the elements it shows (the text of a message is
  given in plain ASCII) and the queries it sends to the warehouse. A charted or displayed
  table is kept with its element.
\<close>

datatype event =
    Warning string
  | Error string
  | Info string
  | Success string
  | Markdown string
  | Metric string val
  | Metric_delta string val val
  | Dataframe frame
  | Chart string frame
  | Heatmap string pivot
  | Traceback error
  | Caption nat nat
  | Query string
  | Sleep int
  | Rerun

text \<open>
  A computation emits events and then returns a value or raises; an exception keeps the
  events emitted before it.
\<close>

type_synonym 'a io = "event list \<times> (error + 'a)"

definition ret :: "'a \<Rightarrow> 'a io" where
  "ret x = ([], Inr x)"

definition raise :: "error \<Rightarrow> 'a io" where
  "raise e = ([], Inl e)"

definition emit :: "event \<Rightarrow> unit io" where
  "emit ev = ([ev], Inr ())"

definition lift :: "error + 'a \<Rightarrow> 'a io" where
  "lift r = ([], r)"

definition io_bind :: "'a io \<Rightarrow> ('a \<Rightarrow> 'b io) \<Rightarrow> 'b io" where
  "io_bind m f =
     (case m of
        (es, Inl e) \<Rightarrow> (es, Inl e)
      | (es, Inr x) \<Rightarrow> (case f x of (es', r) \<Rightarrow> (es @ es', r)))"

definition seq :: "unit io \<Rightarrow> 'b io \<Rightarrow> 'b io" where
  "seq m k = io_bind m (\<lambda>_. k)"

definition try_except :: "'a io \<Rightarrow> (error \<Rightarrow> 'a io) \<Rightarrow> 'a io" where
  \<comment> \<open>\<^verbatim>\<open>try: ... except Exception as e: ...\<close>\<close>
  "try_except m handler =
     (case m of
        (es, Inl e) \<Rightarrow> (case handler e of (es', r) \<Rightarrow> (es @ es', r))
      | (es, Inr x) \<Rightarrow> (es, Inr x))"

section \<open>Warehouse\<close>

text \<open>
  Modelled from the spec: the warehouse is BigQuery, reached through the client library;
  neither is part of the repository, which only writes the SQL text. Section 6 gives the
  boundary: \<^verbatim>\<open>execute(query_descriptor) -> Table | Failure\<close>, with the descriptors
  fetch-latest-orders(limit), sorted by processing timestamp descending, and
  fetch-view(view_name), each view with its own fixed sort order (the last one capped at 50
  rows). Section 3: the raw table is bounded to the most recent N rows, freshest first.
  Section 7: a view or column that does not exist upstream is a failure of the query, as is
  a failure to reach the warehouse.

  The warehouse holds relations (tables and views) by their qualified name; a query names
  a relation, the columns it selects (or all), a sort column with a direction, and a row
  limit. A query fails when the client cannot reach the warehouse or decode its answer,
  when the relation or a named column does not exist, or when the limit is negative. In
  descending order nulls come last. Rows with equal sort keys come in an order the
  warehouse does not specify; the model fixes one.
\<close>

record config =
  PROJECT_ID :: string
  DATASET :: string
  TABLE :: string

record warehouse =
  auth_failure :: "error option"
  query_failure :: "error option"
  relations :: "string \<rightharpoonup> frame"

record query =
  source :: string
  selected :: "string list option"
  order_by :: "(string \<times> bool) option"
  limit :: "int option"

definition full_name :: "config \<Rightarrow> string \<Rightarrow> string" where
  \<comment> \<open>\<^verbatim>\<open>{PROJECT_ID}.{DATASET}.{name}\<close>\<close>
  "full_name cfg name = PROJECT_ID cfg @ ''.'' @ DATASET cfg @ ''.'' @ name"

definition project :: "string list \<Rightarrow> frame \<Rightarrow> frame" where
  "project cs df =
     \<lparr>columns = cs,
      rows = map (\<lambda>r. map (\<lambda>c. cell r (index_of c (columns df))) cs) (rows df)\<rparr>"

definition order_rows :: "(string \<times> bool) option \<Rightarrow> frame \<Rightarrow> frame" where
  \<comment> \<open>Modelled from the spec: \<^verbatim>\<open>ORDER BY c [DESC]\<close> as the warehouse executes it\<close>
  "order_rows ob df =
     (case ob of
        None \<Rightarrow> df
      | Some (c, descending) \<Rightarrow>
          let sorted_rows = sort_key (\<lambda>r. cell r (index_of c (columns df))) (rows df)
          in df\<lparr>rows := (if descending then rev sorted_rows else sorted_rows)\<rparr>)"

definition limit_rows :: "int option \<Rightarrow> frame \<Rightarrow> frame" where
  \<comment> \<open>Modelled from the spec: \<^verbatim>\<open>LIMIT n\<close> as the warehouse executes it\<close>
  "limit_rows l df = (case l of None \<Rightarrow> df | Some n \<Rightarrow> df\<lparr>rows := take (nat n) (rows df)\<rparr>)"

definition run_query :: "warehouse \<Rightarrow> query \<Rightarrow> error + frame" where
  \<comment> \<open>Modelled from the spec: \<^verbatim>\<open>client.query(query).to_dataframe()\<close>, the boundary
      \<^verbatim>\<open>execute\<close> of section 6\<close>
  "run_query w q =
     (case query_failure w of
        Some e \<Rightarrow> Inl e
      | None \<Rightarrow>
         (case relations w (source q) of
            None \<Rightarrow> Inl (QueryError (''Not found: '' @ source q))
          | Some rel \<Rightarrow>
              if \<exists>c \<in> set (case selected q of None \<Rightarrow> [] | Some cs \<Rightarrow> cs). \<not> has_col rel c
              then Inl (QueryError ''Unrecognized name'')
              else if (case order_by q of None \<Rightarrow> False | Some (c, d) \<Rightarrow> \<not> has_col rel c)
              then Inl (QueryError ''Unrecognized name'')
              else if (case limit q of None \<Rightarrow> False | Some n \<Rightarrow> n < 0)
              then Inl (QueryError ''Syntax error'')
              else Inr (limit_rows (limit q)
                     ((case selected q of None \<Rightarrow> (\<lambda>df. df) | Some cs \<Rightarrow> project cs)
                        (order_rows (order_by q) rel)))))"

fun message :: "error \<Rightarrow> string" where
  \<comment> \<open>\<^verbatim>\<open>str(e)\<close>\<close>
  "message (KeyError c) = c"
| "message (QueryError m) = m"
| "message TypeError = ''unsupported operand type''"
| "message ValueError = ''invalid value''"
| "message ZeroDivisionError = ''division by zero''"
| "message (AttributeError a) = ''module has no attribute '' @ a"

definition lower :: "string \<Rightarrow> string" where
  \<comment> \<open>\<^verbatim>\<open>s.lower()\<close> on ASCII letters\<close>
  "lower s = map (\<lambda>c. if CHR ''A'' \<le> c \<and> c \<le> CHR ''Z''
                        then char_of (of_char c + (32 :: nat)) else c) s"

fun starts_with :: "string \<Rightarrow> string \<Rightarrow> bool" where
  "starts_with [] s = True"
| "starts_with (c # cs) [] = False"
| "starts_with (c # cs) (d # ds) = (c = d \<and> starts_with cs ds)"

fun contains :: "string \<Rightarrow> string \<Rightarrow> bool" where
  \<comment> \<open>\<^verbatim>\<open>needle in s\<close>\<close>
  "contains needle [] = (needle = [])"
| "contains needle (d # ds) = (starts_with needle (d # ds) \<or> contains needle ds)"

text \<open>
  Figures. A figure built with \<^verbatim>\<open>color_continuous_scale=name\<close> raises a ValueError when
  the name is not one of plotly's named colour scales (the names are compared without
  regard to case); \<^verbatim>\<open>Gold\<close> is not one. \<^verbatim>\<open>px.colors.sequential.name\<close> raises an
  AttributeError when the module has no such palette; \<^verbatim>\<open>RdYlGn\<close> is a diverging
  palette, not a sequential one. Other failures of the plotting library (a view without the
  column a figure names) are not modelled. The reversed variants of the scales and palettes
  (suffix \<^verbatim>\<open>_r\<close>) are left out of the two lists; the script names none.
\<close>

definition named_colorscales :: "string list" where
  "named_colorscales =
     [''aggrnyl'', ''agsunset'', ''algae'', ''amp'', ''armyrose'', ''balance'', ''blackbody'',
      ''bluered'', ''blues'', ''blugrn'', ''bluyl'', ''brbg'', ''brwnyl'', ''bugn'', ''bupu'',
      ''burg'', ''burgyl'', ''cividis'', ''curl'', ''darkmint'', ''deep'', ''delta'', ''dense'',
      ''earth'', ''edge'', ''electric'', ''emrld'', ''fall'', ''geyser'', ''gnbu'', ''gray'',
      ''greens'', ''greys'', ''haline'', ''hot'', ''hsv'', ''ice'', ''icefire'', ''inferno'',
      ''jet'', ''magenta'', ''magma'', ''matter'', ''mint'', ''mrybm'', ''mygbm'', ''oranges'',
      ''orrd'', ''oryel'', ''oxy'', ''peach'', ''phase'', ''picnic'', ''pinkyl'', ''piyg'',
      ''plasma'', ''plotly3'', ''portland'', ''prgn'', ''pubu'', ''pubugn'', ''puor'', ''purd'',
      ''purp'', ''purples'', ''purpor'', ''rainbow'', ''rdbu'', ''rdgy'', ''rdpu'', ''rdylbu'',
      ''rdylgn'', ''redor'', ''reds'', ''solar'', ''spectral'', ''speed'', ''sunset'',
      ''sunsetdark'', ''teal'', ''tealgrn'', ''tealrose'', ''tempo'', ''temps'', ''thermal'',
      ''tropic'', ''turbid'', ''turbo'', ''twilight'', ''viridis'', ''ylgn'', ''ylgnbu'',
      ''ylorbr'', ''ylorrd'']"

definition sequential_palettes :: "string list" where
  "sequential_palettes =
     [''Plotly3'', ''Viridis'', ''Cividis'', ''Inferno'', ''Magma'', ''Plasma'', ''Turbo'',
      ''Blackbody'', ''Bluered'', ''Electric'', ''Hot'', ''Jet'', ''Rainbow'', ''Blues'',
      ''BuGn'', ''BuPu'', ''GnBu'', ''Greens'', ''Greys'', ''OrRd'', ''Oranges'', ''PuBu'',
      ''PuBuGn'', ''PuRd'', ''Purples'', ''RdBu'', ''RdPu'', ''Reds'', ''YlGn'', ''YlGnBu'',
      ''YlOrBr'', ''YlOrRd'', ''turbid'', ''thermal'', ''haline'', ''solar'', ''ice'', ''gray'',
      ''deep'', ''dense'', ''algae'', ''matter'', ''speed'', ''amp'', ''tempo'', ''Burg'',
      ''Burgyl'', ''Redor'', ''Oryel'', ''Peach'', ''Pinkyl'', ''Mint'', ''Blugrn'',
      ''Darkmint'', ''Emrld'', ''Aggrnyl'', ''Bluyl'', ''Teal'', ''Tealgrn'', ''Purp'',
      ''Purpor'', ''Sunset'', ''Magenta'', ''Sunsetdark'', ''Agsunset'', ''Brwnyl'']"

definition scaled :: "string \<Rightarrow> event \<Rightarrow> unit io" where
  \<comment> \<open>a figure with \<^verbatim>\<open>color_continuous_scale=name\<close>, then \<^verbatim>\<open>st.plotly_chart\<close>\<close>
  "scaled name ev =
     (if lower name \<in> set named_colorscales then emit ev else raise ValueError)"

definition sequential_palette :: "string \<Rightarrow> unit io" where
  \<comment> \<open>\<^verbatim>\<open>px.colors.sequential.name\<close>\<close>
  "sequential_palette name =
     (if name \<in> set sequential_palettes then ret () else raise (AttributeError name))"

section \<open>Fetch functions\<close>

text \<open>
  Lines 39-157: \<^verbatim>\<open>init_bigquery_client\<close> resolves credentials and builds the client. Its
  resolution of credentials is outside the model; what matters here is that on failure it
  shows an error and raises again.
\<close>

definition init_bigquery_client :: "warehouse \<Rightarrow> unit io" where
  "init_bigquery_client w =
     (case auth_failure w of
        None \<Rightarrow> ret ()
      | Some e \<Rightarrow>
          seq (emit (Error (''Erreur authentification BigQuery: '' @ message e)))
            (seq (if contains ''secrets.toml'' (message e) \<or> contains ''parsing'' (lower (message e))
                     \<or> contains ''TOML'' (message e)
                  then ret ()
                  else if contains ''403'' (message e) \<or> contains ''401'' (message e)
                     \<or> contains ''CREDENTIALS'' (message e)
                  then seq (emit (Error ''Probleme authentification detecte''))
                         (emit (Markdown ''Solutions possibles''))
                  else ret ())
               (raise e)))"

text \<open>
  Lines 159-216:
  \<^verbatim>\<open>
  def fetch_latest_orders(limit=1000):
      client = init_bigquery_client()
      query = f"""SELECT customer_id, age, ..., loyalty_score
      FROM {PROJECT_ID}.{DATASET}.{TABLE}
      ORDER BY processed_time DESC
      LIMIT {limit}"""
      try:
          df = client.query(query).to_dataframe()
          return df
      except Exception as e:
          error_msg = str(e)
          if "db-dtypes" in error_msg.lower():
              st.error(...); st.markdown(...)
          else:
              st.error(f"Erreur lors de la recuperation des commandes: {error_msg}")
          return pd.DataFrame()
  \<close>
\<close>

definition order_columns :: "string list" where
  "order_columns =
     [''customer_id'', ''age'', ''gender'', ''category'', ''item_purchased'',
      ''purchase_amount_usd'', ''location'', ''review_rating'', ''subscription_status'',
      ''payment_method'', ''processed_time'', ''final_amount_usd'', ''amount_category'',
      ''customer_segment'', ''satisfaction_level'', ''is_anomaly'', ''estimated_clv'',
      ''frequency_category'', ''estimated_profit_usd'', ''season_type'', ''loyalty_score'']"

definition default_limit :: int where
  \<comment> \<open>the default of the parameter \<^verbatim>\<open>limit\<close>\<close>
  "default_limit = 1000"

definition orders_query :: "config \<Rightarrow> int \<Rightarrow> query" where
  "orders_query cfg n =
     \<lparr>source = full_name cfg (TABLE cfg), selected = Some order_columns,
      order_by = Some (''processed_time'', True), limit = Some n\<rparr>"

definition fetch_latest_orders :: "config \<Rightarrow> warehouse \<Rightarrow> int option \<Rightarrow> frame io" where
  "fetch_latest_orders cfg w limit_arg =
     (let n = (case limit_arg of None \<Rightarrow> default_limit | Some given \<Rightarrow> given) in
      seq (init_bigquery_client w)
        (seq (emit (Query (source (orders_query cfg n))))
           (try_except (lift (run_query w (orders_query cfg n)))
              (\<lambda>e. if contains ''db-dtypes'' (lower (message e))
                    then seq (emit (Error ''Package manquant : db-dtypes''))
                           (seq (emit (Markdown ''Pour resoudre ce probleme''))
                              (ret empty_frame))
                    else seq (emit (Error (''Erreur lors de la recuperation des commandes: ''
                                             @ message e)))
                           (ret empty_frame)))))"

text \<open>
  Lines 218-285, the four preference views: each selects all columns of its view and, when
  the query raises, shows a warning and returns an empty frame.
  \<^verbatim>\<open>
  def fetch_age_preferences():
      client = init_bigquery_client()
      query = f"""SELECT * FROM {PROJECT_ID}.{DATASET}.v_age_preferences ORDER BY age_bucket"""
      try:
          df = client.query(query).to_dataframe()
          return df
      except Exception as e:
          st.warning(f"Vue v_age_preferences non disponible: {str(e)}")
          return pd.DataFrame()
  \<close>
\<close>

definition fetch_view :: "config \<Rightarrow> warehouse \<Rightarrow> string \<Rightarrow> (string \<times> bool) option
    \<Rightarrow> int option \<Rightarrow> frame io" where
  "fetch_view cfg w view ob l =
     seq (init_bigquery_client w)
       (seq (emit (Query (full_name cfg view)))
          (try_except
             (lift (run_query w \<lparr>source = full_name cfg view, selected = None,
                                  order_by = ob, limit = l\<rparr>))
             (\<lambda>e. seq (emit (Warning (''Vue '' @ view @ '' non disponible: '' @ message e)))
                     (ret empty_frame))))"

definition fetch_age_preferences :: "config \<Rightarrow> warehouse \<Rightarrow> frame io" where
  "fetch_age_preferences cfg w =
     fetch_view cfg w ''v_age_preferences'' (Some (''age_bucket'', False)) None"

definition fetch_gender_preferences :: "config \<Rightarrow> warehouse \<Rightarrow> frame io" where
  "fetch_gender_preferences cfg w = fetch_view cfg w ''v_gender_preferences'' None None"

definition fetch_location_preferences :: "config \<Rightarrow> warehouse \<Rightarrow> frame io" where
  "fetch_location_preferences cfg w =
     fetch_view cfg w ''v_location_preferences'' (Some (''orders'', True)) None"

definition fetch_age_gender_category :: "config \<Rightarrow> warehouse \<Rightarrow> frame io" where
  "fetch_age_gender_category cfg w =
     fetch_view cfg w ''v_age_gender_category'' (Some (''orders'', True)) (Some 50)"

section \<open>The render cycle\<close>

text \<open>
  Lines 324-1018. Each block of the script takes the current value of the variable
  \<^verbatim>\<open>orders_df\<close> and returns its value after the block, so that an assignment into
  the frame shows. Layout calls (columns, tabs, headings) show no data and are left out. The
  cycle is the one in which the fetch functions run; on a cache hit the decorator returns
  the stored frame and replays the stored elements.
\<close>

record ui =
  auto_refresh :: bool
  refresh_interval :: int
  categories_chosen :: "val list"
  locations_chosen :: "val list"
  limit_display :: nat

definition value_counts :: "frame \<Rightarrow> string \<Rightarrow> error + frame" where
  \<comment> \<open>\<^verbatim>\<open>df[c].value_counts()\<close>: the non-null values with their counts, most frequent first;
      values with equal counts come in order of first appearance\<close>
  "value_counts df c =
     bind (column df c)
       (\<lambda>vs. Inr \<lparr>columns = [c, ''count''],
                   rows = rev (sort_key (\<lambda>r. cell r 1)
                            (map (\<lambda>v. [v, Num (of_nat (count_list vs v))])
                               (remdups (rev (filter (\<lambda>v. v \<noteq> Null) vs)))))\<rparr>)"

definition unique :: "frame \<Rightarrow> string \<Rightarrow> error + val list" where
  \<comment> \<open>\<^verbatim>\<open>df[c].unique()\<close>: the values in order of first appearance\<close>
  "unique df c = bind (column df c) (\<lambda>vs. Inr (rev (remdups (rev vs))))"

definition multiselect :: "val list \<Rightarrow> val list \<Rightarrow> val list" where
  \<comment> \<open>\<^verbatim>\<open>st.multiselect(options=..., default=[])\<close>: the user picks among the options\<close>
  "multiselect options chosen = filter (\<lambda>v. v \<in> set options) chosen"

definition set_cell :: "nat \<Rightarrow> val \<Rightarrow> val list \<Rightarrow> val list" where
  "set_cell i v r =
     (if i < length r then r[i := v] else r @ replicate (i - length r) Null @ [v])"

definition assign :: "string \<Rightarrow> val list \<Rightarrow> frame \<Rightarrow> frame" where
  \<comment> \<open>\<^verbatim>\<open>df[c] = values\<close>: replaces the column, or appends it when the label is new\<close>
  "assign c vs df =
     \<lparr>columns = (if has_col df c then columns df else columns df @ [c]),
      rows = map (\<lambda>(r, v). set_cell (index_of c (columns df)) v r) (zip (rows df) vs)\<rparr>"

fun to_datetime :: "val \<Rightarrow> error + val" where
  \<comment> \<open>\<^verbatim>\<open>pd.to_datetime\<close> on a cell of a TIMESTAMP column; parsing of other cells is not modelled\<close>
  "to_datetime (Time t) = Inr (Time t)"
| "to_datetime Null = Inr Null"
| "to_datetime v = Inl ValueError"

fun floor_hour :: "val \<Rightarrow> val" where
  \<comment> \<open>\<^verbatim>\<open>.dt.floor('H')\<close>\<close>
  "floor_hour (Time t) = Time (t - t mod 3600)"
| "floor_hour v = Null"

text \<open>Lines 333-355, the headline metrics.\<close>

definition avg_order_value :: "frame \<Rightarrow> error + val" where
  "avg_order_value orders_df =
     (if has_col orders_df ''purchase_amount_usd''
      then bind (column orders_df ''purchase_amount_usd'') series_mean
      else Inr (Num 0))"

definition avg_rating :: "frame \<Rightarrow> error + val" where
  "avg_rating orders_df =
     (if has_col orders_df ''review_rating''
      then bind (column orders_df ''review_rating'') series_mean
      else Inr (Num 0))"

definition vip_customers :: "frame \<Rightarrow> nat" where
  "vip_customers orders_df =
     (if has_col orders_df ''customer_segment''
      then len (select_rows orders_df
             (\<lambda>r. cell r (index_of ''customer_segment'' (columns orders_df)) = Str ''VIP''))
      else 0)"

definition final_revenue :: "frame \<Rightarrow> rat \<Rightarrow> error + rat" where
  "final_revenue orders_df total_revenue_value =
     (if has_col orders_df ''final_amount_usd''
      then bind (column orders_df ''final_amount_usd'') series_sum
      else Inr total_revenue_value)"

definition headline :: "frame \<Rightarrow> frame io" where
  "headline orders_df =
     io_bind (lift (total_revenue orders_df)) (\<lambda>revenue.
     io_bind (lift (avg_order_value orders_df)) (\<lambda>basket.
     io_bind (lift (avg_rating orders_df)) (\<lambda>rating.
     seq (emit (Metric ''Total Commandes'' (Num (of_nat (len orders_df)))))
    (seq (emit (Metric ''Revenus Total'' (Num revenue)))
    (seq (emit (Metric ''Panier Moyen'' basket))
    (seq (emit (Metric ''Note Moyenne'' rating))
    (io_bind (lift (anomalies_count orders_df)) (\<lambda>anomalies.
     io_bind (lift (total_profit orders_df)) (\<lambda>profit.
     io_bind (lift (final_revenue orders_df revenue)) (\<lambda>final.
     io_bind (lift (anomaly_delta anomalies (len orders_df))) (\<lambda>delta.
     seq (emit (Metric_delta ''Anomalies'' (Num anomalies) (Num delta)))
    (seq (emit (Metric ''Profit Estime'' (Num profit)))
    (seq (emit (Metric ''Clients VIP'' (Num (of_nat (vip_customers orders_df)))))
    (seq (emit (Metric ''Revenus Finaux'' (Num final)))
         (ret orders_df)))))))))))))))"

text \<open>
  Lines 369-462, the overview tab. Lines 374-375 assign into the fetched frame:
  \<^verbatim>\<open>
  if 'processed_time' in orders_df.columns:
      orders_df['processed_time'] = pd.to_datetime(orders_df['processed_time'])
      orders_df['hour'] = orders_df['processed_time'].dt.floor('H')
      hourly_orders = orders_df.groupby('hour').agg({
          'purchase_amount_usd': ['count', 'sum']}).reset_index()
      hourly_orders.columns = ['hour', 'count', 'revenue']
  \<close>
\<close>

definition add_hour :: "frame \<Rightarrow> error + frame" where
  "add_hour orders_df =
     bind (map_err to_datetime (col_values orders_df ''processed_time''))
       (\<lambda>ts. Inr (assign ''hour'' (map floor_hour ts) (assign ''processed_time'' ts orders_df)))"

definition hourly_orders :: "frame \<Rightarrow> error + frame" where
  "hourly_orders orders_df =
     bind (groupby_agg orders_df [''hour''] [(''purchase_amount_usd'', [Count, Sum])])
       (set_columns [''hour'', ''count'', ''revenue''])"

definition category_counts :: "frame \<Rightarrow> error + frame" where
  \<comment> \<open>\<^verbatim>\<open>orders_df['category'].value_counts().head(10)\<close>\<close>
  "category_counts orders_df = bind (value_counts orders_df ''category'') (\<lambda>t. Inr (head 10 t))"

definition category_revenue :: "frame \<Rightarrow> error + frame" where
  \<comment> \<open>\<^verbatim>\<open>orders_df.groupby('category')['purchase_amount_usd'].sum().sort_values(ascending=False).head(10)\<close>\<close>
  "category_revenue orders_df =
     bind (groupby_agg orders_df [''category''] [(''purchase_amount_usd'', [Sum])])
       (\<lambda>t. bind (set_columns [''category'', ''purchase_amount_usd''] t)
               (\<lambda>t. bind (sort_values_desc ''purchase_amount_usd'' t) (\<lambda>t. Inr (head 10 t))))"

definition overview :: "frame \<Rightarrow> frame io" where
  "overview orders_df =
     io_bind
       (if has_col orders_df ''processed_time''
        then io_bind (lift (add_hour orders_df)) (\<lambda>orders_df.
             io_bind (lift (hourly_orders orders_df)) (\<lambda>hourly.
             seq (emit (Chart ''fig1'' hourly))
            (seq (emit (Chart ''fig2'' hourly))
                 (ret orders_df))))
        else ret orders_df)
       (\<lambda>orders_df.
          io_bind (lift (category_counts orders_df)) (\<lambda>counts.
          seq (scaled ''Blues'' (Chart ''fig3'' counts))
         (io_bind (lift (category_revenue orders_df)) (\<lambda>revenue.
          seq (scaled ''Greens'' (Chart ''fig4'' revenue))
         (seq (emit (Chart ''fig5'' orders_df))
              (ret orders_df))))))"

text \<open>
  Lines 464-678, the four preference tabs. Each fetches its view; an empty view shows an
  information message instead of charts.
\<close>

definition age_tab :: "config \<Rightarrow> warehouse \<Rightarrow> unit io" where
  "age_tab cfg w =
     io_bind (fetch_age_preferences cfg w) (\<lambda>age_df.
       if \<not> frame_empty age_df
       then seq (scaled ''Viridis'' (Chart ''fig_age1'' age_df))
           (seq (scaled ''Plasma'' (Chart ''fig_age2'' age_df))
           (seq (scaled ''RdYlGn'' (Chart ''fig_age3'' age_df))
           (seq (if has_col age_df ''top_category'' then emit (Chart ''fig_age4'' age_df)
                 else ret ())
                (emit (Dataframe age_df)))))
       else emit (Info ''Les vues analytiques ne sont pas encore disponibles''))"

definition gender_tab :: "config \<Rightarrow> warehouse \<Rightarrow> unit io" where
  "gender_tab cfg w =
     io_bind (fetch_gender_preferences cfg w) (\<lambda>gender_df.
       if \<not> frame_empty gender_df
       then seq (emit (Chart ''fig_gen1'' gender_df))
           (seq (emit (Chart ''fig_gen2'' gender_df))
           (seq (emit (Chart ''fig_gen3'' gender_df))
           (seq (if has_col gender_df ''top_category'' then emit (Chart ''fig_gen4'' gender_df)
                 else ret ())
                (emit (Dataframe gender_df)))))
       else emit (Info ''Les vues analytiques ne sont pas encore disponibles''))"

definition location_tab :: "config \<Rightarrow> warehouse \<Rightarrow> unit io" where
  "location_tab cfg w =
     io_bind (fetch_location_preferences cfg w) (\<lambda>location_df.
       if \<not> frame_empty location_df
       then seq (scaled ''Blues'' (Chart ''fig_loc1'' (head 20 location_df)))
           (seq (scaled ''Greens'' (Chart ''fig_loc2'' (head 15 location_df)))
           (seq (if len location_df > 0 then scaled ''Viridis'' (Chart ''fig_loc3'' (head 20 location_df))
                 else ret ())
                (emit (Dataframe location_df))))
       else emit (Info ''Les vues analytiques ne sont pas encore disponibles''))"

definition combination_tab :: "config \<Rightarrow> warehouse \<Rightarrow> unit io" where
  "combination_tab cfg w =
     io_bind (fetch_age_gender_category cfg w) (\<lambda>age_gender_df.
       if \<not> frame_empty age_gender_df
       then io_bind (lift (pivot_table_sum age_gender_df ''age_bucket'' ''gender'' ''orders''))
              (\<lambda>pivot_df.
                 seq (scaled ''YlOrRd'' (Heatmap ''fig_heat'' pivot_df))
                (seq (emit (Chart ''fig_comb'' (head 30 age_gender_df)))
                     (emit (Dataframe age_gender_df))))
       else emit (Info ''Les vues analytiques ne sont pas encore disponibles''))"

text \<open>Lines 680-745, the VIP-Premium tab.\<close>

definition vip_tab :: "frame \<Rightarrow> frame io" where
  "vip_tab orders_df =
     (if has_col orders_df ''customer_segment'' \<and> has_col orders_df ''amount_category''
      then io_bind (lift (select_vip_premium orders_df)) (\<lambda>vip_premium_df.
        if \<not> frame_empty vip_premium_df
        then seq (emit (Metric ''Nombre de transactions VIP Premium''
                          (Num (of_nat (len vip_premium_df)))))
            (io_bind (lift (bind (column vip_premium_df ''purchase_amount_usd'') series_sum))
               (\<lambda>revenue.
             seq (emit (Metric ''Revenus VIP Premium'' (Num revenue)))
            (io_bind (lift (bind (column vip_premium_df ''purchase_amount_usd'') series_mean))
               (\<lambda>avg_vip_premium.
             io_bind (lift (if has_col vip_premium_df ''estimated_clv''
                            then bind (column vip_premium_df ''estimated_clv'') series_mean
                            else Inr (Num 0)))
               (\<lambda>avg_clv_vip.
             seq (emit (Metric ''Panier Moyen VIP Premium'' avg_vip_premium))
            (seq (emit (Metric ''CLV Moyen'' avg_clv_vip))
            (io_bind (lift (vip_category vip_premium_df)) (\<lambda>by_category.
             seq (scaled ''Gold'' (Chart ''fig_vip1'' by_category))
            (seq (if has_col vip_premium_df ''loyalty_score''
                  then io_bind (lift (value_counts vip_premium_df ''loyalty_score''))
                         (\<lambda>loyalty_dist. emit (Chart ''fig_vip2'' loyalty_dist))
                  else ret ())
            (seq (emit (Dataframe (head 100
                    (project (filter (has_col vip_premium_df)
                       [''processed_time'', ''customer_id'', ''category'', ''item_purchased'',
                        ''purchase_amount_usd'', ''estimated_clv'', ''loyalty_score'',
                        ''frequency_category'', ''location''])
                       vip_premium_df))))
                 (ret orders_df)))))))))))
        else seq (emit (Info ''Aucune transaction VIP Premium trouvee'')) (ret orders_df))
      else seq (emit (Warning
                  ''Les colonnes customer_segment et amount_category ne sont pas disponibles''))
             (ret orders_df))"

text \<open>Lines 747-823, the anomaly tab.\<close>

definition anomalies_by :: "string \<Rightarrow> frame \<Rightarrow> error + frame" where
  \<comment> \<open>\<^verbatim>\<open>anomalies_df.groupby(c)['purchase_amount_usd'].agg(['count', 'sum'])\<close>, sorted by total\<close>
  "anomalies_by c anomalies_df =
     bind (groupby_agg anomalies_df [c] [(''purchase_amount_usd'', [Count, Sum])])
       (\<lambda>t. bind (set_columns [c, ''count'', ''total''] t) (sort_values_desc ''total''))"

definition anomaly_tab :: "frame \<Rightarrow> frame io" where
  "anomaly_tab orders_df =
     (if has_col orders_df ''is_anomaly''
      then io_bind (lift (select_anomalies orders_df)) (\<lambda>anomalies_df.
        if \<not> frame_empty anomalies_df
        then seq (emit (Metric ''Transactions Anormales'' (Num (of_nat (len anomalies_df)))))
            (io_bind (lift (anomaly_rate anomalies_df orders_df)) (\<lambda>rate.
             seq (emit (Metric ''Taux Anomalies'' (Num rate)))
            (io_bind (lift (bind (column anomalies_df ''purchase_amount_usd'') series_sum))
               (\<lambda>amount.
             seq (emit (Metric ''Montant Total Anormal'' (Num amount)))
            (io_bind (lift (anomalies_by ''category'' anomalies_df)) (\<lambda>anom_by_category.
             seq (scaled ''Reds'' (Chart ''fig_anom1'' anom_by_category))
            (seq (emit (Chart ''fig_anom2'' anomalies_df))
            (seq (if has_col anomalies_df ''location''
                  then io_bind (lift (anomalies_by ''location'' anomalies_df))
                         (\<lambda>anom_by_location. scaled ''Oranges'' (Chart ''fig_anom3'' (head 15 anom_by_location)))
                  else ret ())
            (seq (emit (Dataframe
                    (project (filter (has_col anomalies_df)
                       [''processed_time'', ''customer_id'', ''category'', ''purchase_amount_usd'',
                        ''amount_category'', ''location'', ''customer_segment'',
                        ''payment_method''])
                       anomalies_df)))
                 (ret orders_df))))))))))
        else seq (emit (Success ''Aucune anomalie detectee dans les donnees'')) (ret orders_df))
      else seq (emit (Warning ''La colonne is_anomaly n est pas disponible'')) (ret orders_df))"

text \<open>Lines 825-965, the advanced tab: segments, satisfaction, distributions.\<close>

definition advanced_tab :: "frame \<Rightarrow> frame io" where
  "advanced_tab orders_df =
     seq (if has_col orders_df ''customer_segment''
          then io_bind (lift (revenue_by_segment orders_df)) (\<lambda>by_segment.
               seq (scaled ''Blues'' (Chart ''fig_seg1'' by_segment))
              (seq (emit (Chart ''fig_seg2'' by_segment))
                   (emit (Dataframe by_segment))))
          else emit (Warning ''La colonne customer_segment n est pas disponible''))
    (seq (if has_col orders_df ''satisfaction_level'' \<and> has_col orders_df ''category''
          then io_bind (lift (satisfaction_by_category orders_df)) (\<lambda>sbc.
               io_bind (lift (bind (pivot_table_sum sbc ''category'' ''satisfaction_level''
                                      ''count'') order_levels)) (\<lambda>pivot_sat.
               seq (scaled ''RdYlGn'' (Heatmap ''fig_sat1'' pivot_sat))
              (io_bind (lift (value_counts orders_df ''satisfaction_level'')) (\<lambda>satisfaction_dist.
               seq (sequential_palette ''RdYlGn'')
              (seq (emit (Chart ''fig_sat2'' satisfaction_dist))
              (seq (emit (Chart ''fig_sat3'' sbc))
              (io_bind (lift (sort_values_desc ''count'' sbc)) (\<lambda>sorted_sbc.
                  emit (Dataframe sorted_sbc)))))))))
          else emit (Warning
                 ''Les colonnes satisfaction_level et category ne sont pas disponibles''))
    (seq (if has_col orders_df ''amount_category''
          then io_bind (lift (value_counts orders_df ''amount_category''))
                 (\<lambda>amount_cat_dist. scaled ''Viridis'' (Chart ''fig_amt'' amount_cat_dist))
          else ret ())
    (seq (if has_col orders_df ''frequency_category''
          then io_bind (lift (value_counts orders_df ''frequency_category''))
                 (\<lambda>freq_dist. emit (Chart ''fig_freq'' freq_dist))
          else ret ())
         (ret orders_df))))"

text \<open>
  Lines 967-1008, the table of the latest orders: the two filters, the column selection and
  the display cap.
\<close>

definition display_columns :: "string list" where
  "display_columns =
     [''processed_time'', ''customer_id'', ''category'', ''item_purchased'',
      ''purchase_amount_usd'', ''final_amount_usd'', ''amount_category'',
      ''customer_segment'', ''satisfaction_level'', ''is_anomaly'', ''location'',
      ''review_rating'']"

definition display_table :: "frame \<Rightarrow> nat \<Rightarrow> frame" where
  \<comment> \<open>\<^verbatim>\<open>filtered_df[available_columns].head(limit_display)\<close>\<close>
  "display_table filtered_df n =
     head n (project (filter (has_col filtered_df) display_columns) filtered_df)"

definition category_options :: "frame \<Rightarrow> error + val list" where
  \<comment> \<open>\<^verbatim>\<open>orders_df['category'].unique() if 'category' in orders_df.columns else []\<close>\<close>
  "category_options orders_df =
     (if has_col orders_df ''category'' then unique orders_df ''category'' else Inr [])"

definition location_options :: "frame \<Rightarrow> error + val list" where
  \<comment> \<open>\<^verbatim>\<open>orders_df['location'].unique() if 'location' in orders_df.columns else []\<close>\<close>
  "location_options orders_df =
     (if has_col orders_df ''location'' then unique orders_df ''location'' else Inr [])"

definition orders_table :: "frame \<Rightarrow> ui \<Rightarrow> frame io" where
  "orders_table orders_df u =
     io_bind (lift (category_options orders_df)) (\<lambda>options.
     let categories_filter = multiselect options (categories_chosen u) in
     io_bind (lift (location_options orders_df)) (\<lambda>options.
     let locations_filter = multiselect options (locations_chosen u) in
     io_bind (lift (apply_filters orders_df categories_filter locations_filter))
       (\<lambda>filtered_df.
     seq (emit (Dataframe (display_table filtered_df (limit_display u))))
    (seq (emit (Caption (min (limit_display u) (len filtered_df)) (len filtered_df)))
         (ret orders_df)))))"

text \<open>
  Lines 324-328 and 1010-1018: the fetch, the branch on an empty table, the handler of the
  enclosing \<^verbatim>\<open>try\<close>, and the automatic refresh.
\<close>

definition tabs :: "config \<Rightarrow> warehouse \<Rightarrow> frame \<Rightarrow> frame io" where
  \<comment> \<open>lines 330-965: the headline metrics and the eight tabs\<close>
  "tabs cfg w orders_df =
     io_bind (headline orders_df) (\<lambda>orders_df.
     io_bind (overview orders_df) (\<lambda>orders_df.
     seq (age_tab cfg w)
    (seq (gender_tab cfg w)
    (seq (location_tab cfg w)
    (seq (combination_tab cfg w)
    (io_bind (vip_tab orders_df) (\<lambda>orders_df.
     io_bind (anomaly_tab orders_df) (\<lambda>orders_df.
       advanced_tab orders_df))))))))"

definition render :: "config \<Rightarrow> warehouse \<Rightarrow> ui \<Rightarrow> frame io" where
  "render cfg w u =
     io_bind (fetch_latest_orders cfg w (Some 10000)) (\<lambda>orders_df.
       if frame_empty orders_df
       then seq (emit (Warning ''Aucune donnee trouvee dans BigQuery'')) (ret orders_df)
       else io_bind (tabs cfg w orders_df) (\<lambda>orders_df. orders_table orders_df u))"

definition main_block :: "config \<Rightarrow> warehouse \<Rightarrow> ui \<Rightarrow> unit io" where
  "main_block cfg w u =
     try_except (io_bind (render cfg w u) (\<lambda>orders_df. ret ()))
       (\<lambda>e. seq (emit (Error (''Erreur lors de la recuperation des donnees: '' @ message e)))
            (seq (emit (Traceback e))
                 (emit (Info ''Verifiez votre configuration BigQuery et vos credentials GCP''))))"

definition cycle :: "config \<Rightarrow> warehouse \<Rightarrow> ui \<Rightarrow> unit io" where
  "cycle cfg w u =
     seq (main_block cfg w u)
       (if auto_refresh u then seq (emit (Sleep (refresh_interval u))) (emit Rerun)
        else ret ())"

text \<open>A computation that, when it returns, returns a value with the given property.\<close>

definition yields :: "('a \<Rightarrow> bool) \<Rightarrow> 'a io \<Rightarrow> bool" where
  "yields P m = (case snd m of Inl e \<Rightarrow> True | Inr y \<Rightarrow> P y)"

definition order_fetch_event :: "config \<Rightarrow> event \<Rightarrow> bool" where
  \<comment> \<open>what the order fetch itself can emit: its query and its error reports\<close>
  "order_fetch_event cfg ev =
     (case ev of
        Query q \<Rightarrow> q = full_name cfg (TABLE cfg)
      | Error m \<Rightarrow> True
      | Markdown m \<Rightarrow> True
      | _ \<Rightarrow> False)"

section \<open>Frames as objects\<close>

text \<open>
  A pandas frame is an object and a variable holds a reference to it. The assignment
  \<^verbatim>\<open>df[c] = values\<close> changes the object, for every holder of a reference, whereas
  \<^verbatim>\<open>df.copy()\<close>, \<^verbatim>\<open>df[mask]\<close>, \<^verbatim>\<open>df[labels]\<close> and \<^verbatim>\<open>df.head(n)\<close> build a new
  object and leave theirs as it is. The store lists the objects built so far; a reference is
  the position of an object of the store, and a new object goes to the end. A step returns
  a value or raises, and gives the store after it.
\<close>

type_synonym ref = nat

type_synonym store = "frame list"

type_synonym 'a st = "store \<Rightarrow> (error + 'a) \<times> store"

definition object :: "store \<Rightarrow> ref \<Rightarrow> frame" where
  "object s r = s ! r"

definition st_ret :: "'a \<Rightarrow> 'a st" where
  "st_ret x s = (Inr x, s)"

definition st_bind :: "'a st \<Rightarrow> ('a \<Rightarrow> 'b st) \<Rightarrow> 'b st" where
  "st_bind m f s = (case m s of (Inl e, s') \<Rightarrow> (Inl e, s') | (Inr x, s') \<Rightarrow> f x s')"

definition new_object :: "error + frame \<Rightarrow> ref st" where
  \<comment> \<open>the frame an expression evaluates to becomes a new object, unless the expression raises\<close>
  "new_object r s = (case r of Inl e \<Rightarrow> (Inl e, s) | Inr df \<Rightarrow> (Inr (length s), s @ [df]))"

definition st_copy :: "ref \<Rightarrow> ref st" where
  \<comment> \<open>\<^verbatim>\<open>df.copy()\<close>\<close>
  "st_copy r s = new_object (Inr (copy (object s r))) s"

definition st_isin :: "ref \<Rightarrow> string \<Rightarrow> val list \<Rightarrow> ref st" where
  \<comment> \<open>\<^verbatim>\<open>df[df[c].isin(allowed)]\<close>\<close>
  "st_isin r c allowed s = new_object (filter_isin (object s r) c allowed) s"

definition st_getitem :: "ref \<Rightarrow> string list \<Rightarrow> ref st" where
  \<comment> \<open>\<^verbatim>\<open>df[labels]\<close>: raises KeyError when a label is absent\<close>
  "st_getitem r labels s =
     new_object (case filter (\<lambda>c. \<not> has_col (object s r) c) labels of
                   [] \<Rightarrow> Inr (project labels (object s r))
                 | c # _ \<Rightarrow> Inl (KeyError c)) s"

definition st_head :: "ref \<Rightarrow> nat \<Rightarrow> ref st" where
  \<comment> \<open>\<^verbatim>\<open>df.head(n)\<close>\<close>
  "st_head r n s = new_object (Inr (head n (object s r))) s"

definition st_setitem :: "ref \<Rightarrow> string \<Rightarrow> val list \<Rightarrow> unit st" where
  \<comment> \<open>\<^verbatim>\<open>df[c] = values\<close>: in place\<close>
  "st_setitem r c vs s = (Inr (), s[r := assign c vs (object s r)])"

text \<open>
  Lines 989-1003, the filters and the displayed table, on references:
  \<^verbatim>\<open>
  filtered_df = orders_df.copy()
  if categories_filter:
      filtered_df = filtered_df[filtered_df['category'].isin(categories_filter)]
  if locations_filter:
      filtered_df = filtered_df[filtered_df['location'].isin(locations_filter)]
  available_columns = [col for col in display_columns if col in filtered_df.columns]
  st.dataframe(filtered_df[available_columns].head(limit_display), ...)
  \<close>
  The block returns the references of the filtered frame and of the frame shown.
\<close>

definition st_apply_filters :: "ref \<Rightarrow> val list \<Rightarrow> val list \<Rightarrow> ref st" where
  "st_apply_filters orders_df categories_filter locations_filter =
     st_bind (st_copy orders_df) (\<lambda>filtered_df.
     st_bind (if categories_filter \<noteq> []
              then st_isin filtered_df ''category'' categories_filter
              else st_ret filtered_df) (\<lambda>filtered_df.
       if locations_filter \<noteq> []
       then st_isin filtered_df ''location'' locations_filter
       else st_ret filtered_df))"

definition st_display_table :: "ref \<Rightarrow> nat \<Rightarrow> ref st" where
  \<comment> \<open>\<^verbatim>\<open>filtered_df[available_columns].head(limit_display)\<close>\<close>
  "st_display_table filtered_df n s =
     st_bind (st_getitem filtered_df (filter (has_col (object s filtered_df)) display_columns))
       (\<lambda>selected. st_head selected n) s"

definition st_table_block :: "ref \<Rightarrow> val list \<Rightarrow> val list \<Rightarrow> nat \<Rightarrow> (ref \<times> ref) st" where
  "st_table_block orders_df categories_filter locations_filter n =
     st_bind (st_apply_filters orders_df categories_filter locations_filter) (\<lambda>filtered_df.
     st_bind (st_display_table filtered_df n) (\<lambda>shown.
       st_ret (filtered_df, shown)))"

text \<open>
  Lines 374-375, the two assignments of the overview tab, on a reference:
  \<^verbatim>\<open>
  orders_df['processed_time'] = pd.to_datetime(orders_df['processed_time'])
  orders_df['hour'] = orders_df['processed_time'].dt.floor('H')
  \<close>
\<close>

definition st_add_hour :: "ref \<Rightarrow> unit st" where
  "st_add_hour orders_df s =
     (case map_err to_datetime (col_values (object s orders_df) ''processed_time'') of
        Inl e \<Rightarrow> (Inl e, s)
      | Inr ts \<Rightarrow>
          st_bind (st_setitem orders_df ''processed_time'' ts)
            (\<lambda>_ s. st_setitem orders_df ''hour''
                      (map floor_hour (col_values (object s orders_df) ''processed_time'')) s)
            s)"

definition metric_event :: "event \<Rightarrow> bool" where
  \<comment> \<open>the element is a metric\<close>
  "metric_event ev =
     (case ev of Metric label v \<Rightarrow> True | Metric_delta label v d \<Rightarrow> True | _ \<Rightarrow> False)"

section \<open>Sample tables\<close>

definition quiet_orders :: frame where
  \<comment> \<open>one order, not flagged\<close>
  "quiet_orders = \<lparr>columns = [''is_anomaly''], rows = [[Bool False]]\<rparr>"

definition mixed_orders :: frame where
  \<comment> \<open>four orders, two of them flagged, one with no flag\<close>
  "mixed_orders =
     \<lparr>columns = [''is_anomaly''], rows = [[Bool True], [Bool False], [Null], [Bool True]]\<rparr>"

definition segment_orders :: frame where
  \<comment> \<open>three orders, every one with a segment\<close>
  "segment_orders =
     \<lparr>columns = [''customer_segment'', ''purchase_amount_usd'', ''estimated_profit_usd''],
      rows = [[Str ''VIP'', Num 10, Num 1], [Str ''Regular'', Num 20, Num 2],
              [Str ''VIP'', Num 30, Null]]\<rparr>"

definition unsegmented_orders :: frame where
  \<comment> \<open>two orders, the second with no segment\<close>
  "unsegmented_orders =
     \<lparr>columns = [''customer_segment'', ''purchase_amount_usd'', ''estimated_profit_usd''],
      rows = [[Str ''VIP'', Num 10, Num 1], [Null, Num 5, Num 1]]\<rparr>"

definition no_profit_orders :: frame where
  \<comment> \<open>one VIP Premium order in a table without the profit and lifetime-value columns\<close>
  "no_profit_orders =
     \<lparr>columns = [''customer_segment'', ''amount_category'', ''category'', ''purchase_amount_usd''],
      rows = [[Str ''VIP'', Str ''Premium'', Str ''Clothing'', Num 10]]\<rparr>"

definition rated_orders :: frame where
  \<comment> \<open>five orders with a category; all four levels occur\<close>
  "rated_orders =
     \<lparr>columns = [''category'', ''satisfaction_level'', ''purchase_amount_usd''],
      rows = [[Str ''Clothing'', Str ''Neutral'', Num 10],
              [Str ''Shoes'', Str ''Very Satisfied'', Num 20],
              [Str ''Clothing'', Str ''Dissatisfied'', Num 30],
              [Str ''Clothing'', Str ''Satisfied'', Num 5],
              [Str ''Clothing'', Str ''Neutral'', Num 5]]\<rparr>"

definition uncategorised_orders :: frame where
  \<comment> \<open>all four levels occur, Neutral only on an order without a category\<close>
  "uncategorised_orders =
     \<lparr>columns = [''category'', ''satisfaction_level'', ''purchase_amount_usd''],
      rows = [[Null, Str ''Neutral'', Num 10],
              [Str ''Shoes'', Str ''Very Satisfied'', Num 20],
              [Str ''Clothing'', Str ''Dissatisfied'', Num 30],
              [Str ''Clothing'', Str ''Satisfied'', Num 5]]\<rparr>"

definition one_row :: frame where
  "one_row = \<lparr>columns = [''customer_id''], rows = [[Str ''c1'']]\<rparr>"

definition sample_config :: config where
  "sample_config = \<lparr>PROJECT_ID = ''p'', DATASET = ''d'', TABLE = ''orders''\<rparr>"

definition older_order :: "val list" where
  "older_order =
     [Str ''c1'', Num 30, Str ''F'', Str ''Shoes'', Str ''boots'', Num 10, Str ''Lyon'', Num 4,
      Str ''Yes'', Str ''card'', Time 4000, Num 9, Str ''Premium'', Str ''VIP'',
      Str ''Satisfied'', Bool True, Num 100, Str ''Often'', Num 2, Str ''Winter'', Num 3]"

definition newer_order :: "val list" where
  "newer_order =
     [Str ''c2'', Num 40, Str ''M'', Str ''Clothing'', Str ''shirt'', Num 20, Str ''Paris'', Num 5,
      Str ''No'', Str ''cash'', Time 9000, Num 18, Str ''Standard'', Str ''Regular'',
      Str ''Neutral'', Bool False, Num 50, Str ''Rare'', Num 4, Str ''Summer'', Num 1]"

definition stamped_orders :: frame where
  \<comment> \<open>two complete orders, the older one first\<close>
  "stamped_orders = \<lparr>columns = order_columns, rows = [older_order, newer_order]\<rparr>"

definition hourly_stamped_orders :: frame where
  \<comment> \<open>the two orders as fetched, freshest first, after the overview tab: with the hour column\<close>
  "hourly_stamped_orders =
     \<lparr>columns = order_columns @ [''hour''],
      rows = [newer_order @ [Time 7200], older_order @ [Time 3600]]\<rparr>"

definition sample_warehouse :: warehouse where
  \<comment> \<open>a warehouse with the order table and none of the views\<close>
  "sample_warehouse =
     \<lparr>auth_failure = None, query_failure = None,
      relations = [''p.d.orders'' \<mapsto> stamped_orders]\<rparr>"


definition idle_warehouse :: warehouse where
  \<comment> \<open>a warehouse whose order table has no rows yet\<close>
  "idle_warehouse =
     \<lparr>auth_failure = None, query_failure = None,
      relations = [''p.d.orders'' \<mapsto> \<lparr>columns = order_columns, rows = []\<rparr>]\<rparr>"

definition sample_ui :: ui where
  "sample_ui =
     \<lparr>auto_refresh = True, refresh_interval = 15, categories_chosen = [Str ''Shoes''],
      locations_chosen = [], limit_display = 100\<rparr>"

section \<open>Properties\<close>

lemma copy_id: "copy df = df"
  by (simp add: copy_def)

text \<open>
  C8. With an empty category subset and an empty location subset the filter engine
  returns a table equal to its input: same column labels, same rows in the same order.
  An empty subset switches the dimension's filter off; it does not exclude every row.
\<close>

theorem apply_filters_empty_subsets:
  "apply_filters orders_df [] [] = Inr orders_df"
  by (simp add: apply_filters_def copy_id)

subsection \<open>Anomaly rate\<close>

lemma total_boolean:
  "list_all boolean_cell vs \<Longrightarrow> total vs = of_nat (length (filter is_true vs))"
  by (induction vs) (auto simp: total_def boolean_cell_def split: val.splits)

lemma boolean_summable: "list_all boolean_cell vs \<Longrightarrow> list_all summable_cell vs"
  by (induction vs) (auto simp: boolean_cell_def split: val.splits)

lemma len_select_anomalies:
  "select_anomalies orders_df = Inr anomalies_df \<Longrightarrow>
   len anomalies_df = length (filter is_true (col_values orders_df ''is_anomaly''))
   \<and> len anomalies_df \<le> len orders_df \<and> has_col orders_df ''is_anomaly''"
  by (auto simp: select_anomalies_def len_def copy_def select_rows_def col_values_def
      filter_map comp_def split: if_splits)

text \<open>
  C4, as the code has it. Whenever the anomaly subset can be selected (the flag column is
  there), the anomaly rate of line 759 is computed without a division fault, the quotient
  (the displayed percentage over 100) lies in [0,1], and it is 0 exactly when no row is
  flagged, which covers the empty table but also any table without anomalies. On a boolean
  flag column the headline delta of line 352 is the same number.
\<close>

theorem anomaly_rate_range:
  assumes "select_anomalies orders_df = Inr anomalies_df"
  shows "\<exists>r. anomaly_rate anomalies_df orders_df = Inr r
           \<and> 0 \<le> r / 100 \<and> r / 100 \<le> 1
           \<and> (r = 0 \<longleftrightarrow> rows anomalies_df = [])
           \<and> (list_all boolean_cell (col_values orders_df ''is_anomaly'') \<longrightarrow>
                bind (anomalies_count orders_df) (\<lambda>c. anomaly_delta c (len orders_df)) = Inr r)"
proof -
  note facts = len_select_anomalies [OF assms]
  from facts have n: "len anomalies_df = length (filter is_true (col_values orders_df ''is_anomaly''))"
    by simp
  from facts have le: "len anomalies_df \<le> len orders_df"
    by simp
  from facts have hc: "has_col orders_df ''is_anomaly''"
    by simp
  show ?thesis
  proof (cases "len orders_df > 0")
    case False
    with le have "rows anomalies_df = []" by (simp add: len_def)
    with False show ?thesis
      by (auto simp: anomaly_rate_def anomaly_delta_def anomalies_count_def bind_def column_def hc
          series_sum_def boolean_summable)
  next
    case True
    let ?r = "of_nat (len anomalies_df) / of_nat (len orders_df) * (100::rat)"
    have r: "anomaly_rate anomalies_df orders_df = Inr ?r"
      using True by (simp add: anomaly_rate_def py_truediv_def bind_def)
    have q: "0 \<le> ?r / 100 \<and> ?r / 100 \<le> 1"
      using True le by simp
    have z: "(?r = 0) = (rows anomalies_df = [])"
      using True by (simp add: len_def)
    have d: "list_all boolean_cell (col_values orders_df ''is_anomaly'') \<longrightarrow>
                bind (anomalies_count orders_df) (\<lambda>c. anomaly_delta c (len orders_df)) = Inr ?r"
      using True
      by (simp add: anomalies_count_def hc column_def bind_def series_sum_def boolean_summable
          total_boolean anomaly_delta_def py_truediv_def n)
    from r q z d show ?thesis by blast
  qed
qed

theorem anomaly_rate_range_witness:
  "select_anomalies mixed_orders
     = Inr \<lparr>columns = [''is_anomaly''], rows = [[Bool True], [Bool True]]\<rparr>
   \<and> list_all boolean_cell (col_values mixed_orders ''is_anomaly'')
   \<and> anomaly_rate \<lparr>columns = [''is_anomaly''], rows = [[Bool True], [Bool True]]\<rparr> mixed_orders
       = Inr 50
   \<and> bind (anomalies_count mixed_orders) (\<lambda>c. anomaly_delta c (len mixed_orders)) = Inr 50"
proof -
  have s: "select_anomalies mixed_orders
             = Inr \<lparr>columns = [''is_anomaly''], rows = [[Bool True], [Bool True]]\<rparr>"
    by (simp add: mixed_orders_def select_anomalies_def has_col_def copy_def select_rows_def
        cell_def)
  have b: "list_all boolean_cell (col_values mixed_orders ''is_anomaly'')"
    by (simp add: mixed_orders_def col_values_def cell_def boolean_cell_def)
  have r: "anomaly_rate \<lparr>columns = [''is_anomaly''], rows = [[Bool True], [Bool True]]\<rparr>
             mixed_orders = Inr 50"
    by (simp add: mixed_orders_def anomaly_rate_def len_def bind_def py_truediv_def)
  from anomaly_rate_range [OF s] r b s show ?thesis by auto
qed

text \<open>
  The claim as written fails: a table of one order that is not flagged is not empty, and
  both rates are 0 on it.
\<close>

theorem anomaly_rate_zero_nonempty:
  "select_anomalies quiet_orders = Inr \<lparr>columns = [''is_anomaly''], rows = []\<rparr>
   \<and> anomaly_rate \<lparr>columns = [''is_anomaly''], rows = []\<rparr> quiet_orders = Inr 0
   \<and> bind (anomalies_count quiet_orders) (\<lambda>c. anomaly_delta c (len quiet_orders)) = Inr 0
   \<and> \<not> frame_empty quiet_orders \<and> rows quiet_orders \<noteq> []"
  by (simp add: quiet_orders_def select_anomalies_def has_col_def copy_def select_rows_def cell_def
      anomaly_rate_def len_def bind_def py_truediv_def anomalies_count_def column_def col_values_def
      series_sum_def total_def anomaly_delta_def frame_empty_def)

subsection \<open>Grouping\<close>

lemma bind_Inr: "bind m f = Inr y \<Longrightarrow> \<exists>x. m = Inr x \<and> f x = Inr y"
  by (cases m) (simp_all add: bind_def)

lemma map_err_Inr:
  "map_err f xs = Inr ys \<Longrightarrow> list_all2 (\<lambda>x y. f x = Inr y) xs ys"
  by (induction xs arbitrary: ys) (auto simp: bind_def split: sum.splits)

lemma total_append: "total (xs @ ys) = total xs + total ys"
  by (simp add: total_def)

lemma total_mset: "mset xs = mset ys \<Longrightarrow> total xs = total ys"
  by (metis mset_map sum_mset_sum_list total_def)

lemma sum_list_single:
  fixes c :: rat
  shows "distinct gs \<Longrightarrow> (\<Sum>g\<leftarrow>gs. if a = g then c else 0) = (if a \<in> set gs then c else 0)"
  by (induction gs) auto

text \<open>Summing each group and adding up is summing everything, when the keys cover every row once.\<close>

lemma sum_by_groups:
  fixes w :: "'r \<Rightarrow> rat"
  assumes "distinct gs" and "\<forall>r \<in> set rs. k r \<in> set gs"
  shows "(\<Sum>g\<leftarrow>gs. \<Sum>r\<leftarrow>filter (\<lambda>r. k r = g) rs. w r) = (\<Sum>r\<leftarrow>rs. w r)"
  using assms(2)
proof (induction rs)
  case Nil
  then show ?case by simp
next
  case (Cons r rs)
  have one: "(\<Sum>g\<leftarrow>gs. if k r = g then w r else 0) = w r"
    using assms(1) Cons.prems
    by (simp add: sum_list_single)
  have "(\<Sum>g\<leftarrow>gs. \<Sum>x\<leftarrow>filter (\<lambda>x. k x = g) (r # rs). w x)
        = (\<Sum>g\<leftarrow>gs. (if k r = g then w r else 0) + (\<Sum>x\<leftarrow>filter (\<lambda>x. k x = g) rs. w x))"
    by (rule arg_cong [where f = sum_list]) (auto)
  also have "\<dots> = (\<Sum>g\<leftarrow>gs. if k r = g then w r else 0) + (\<Sum>g\<leftarrow>gs. \<Sum>x\<leftarrow>filter (\<lambda>x. k x = g) rs. w x)"
    by (simp add: sum_list_addf)
  also have "\<dots> = w r + (\<Sum>x\<leftarrow>rs. w x)"
    using one Cons by simp
  finally show ?case by simp
qed


lemma groupby_agg_Inr:
  assumes "groupby_agg df keys spec = Inr t"
  shows "(\<forall>k \<in> set keys. has_col df k)"
    and "(\<forall>c \<in> set (map fst spec). has_col df c)"
    and "length (columns t) = length keys + length (agg_pairs spec)"
    and "list_all2 (\<lambda>g y. bind (agg_row df spec (group_rows df keys g)) (\<lambda>vs. Inr (g @ vs)) = Inr y)
           (group_keys df keys) (rows t)"
proof -
  from assms have k: "filter (\<lambda>k. \<not> has_col df k) keys = []"
    by (auto simp: groupby_agg_def split: list.splits)
  from assms k have c: "filter (\<lambda>c. \<not> has_col df c) (map fst spec) = []"
    by (auto simp: groupby_agg_def split: list.splits)
  from k show "\<forall>k \<in> set keys. has_col df k"
    by (simp add: filter_empty_conv)
  from c show "\<forall>c \<in> set (map fst spec). has_col df c"
    by (simp only: filter_empty_conv) blast
  from assms k c obtain rs where rs: "map_err (\<lambda>g. bind (agg_row df spec (group_rows df keys g))
                                  (\<lambda>vs. Inr (g @ vs))) (group_keys df keys) = Inr rs"
    and t: "t = \<lparr>columns = keys @ map (\<lambda>(c, f). c @ ''.'' @ aggfun_name f) (agg_pairs spec), rows = rs\<rparr>"
    by (auto simp: groupby_agg_def dest!: bind_Inr)
  from t show "length (columns t) = length keys + length (agg_pairs spec)"
    by simp
  from map_err_Inr [OF rs] t show "list_all2 (\<lambda>g y. bind (agg_row df spec (group_rows df keys g)) (\<lambda>vs. Inr (g @ vs)) = Inr y)
           (group_keys df keys) (rows t)"
    by simp
qed

lemma group_keys_distinct: "distinct (group_keys df keys)"
  by (simp add: group_keys_def)

lemma group_keys_set:
  "set (group_keys df keys) = {g. g \<in> key_of df keys ` set (rows df) \<and> Null \<notin> set g}"
  by (auto simp: group_keys_def)

lemma group_keys_length: "g \<in> set (group_keys df keys) \<Longrightarrow> length g = length keys"
  by (auto simp: group_keys_set key_of_def)

lemma sum_first_row:
  assumes "bind (agg_row df ((p, Sum # fs) # spec) grp) (\<lambda>vs. Inr (g @ vs)) = Inr y"
    and "length g = 1"
  shows "cell y 1 = Num (total (map (\<lambda>r. cell r (index_of p (columns df))) grp))"
    and "list_all summable_cell (map (\<lambda>r. cell r (index_of p (columns df))) grp)"
  using assms
  by (auto simp: agg_row_def agg_pairs_def aggregate_def series_sum_def cell_def nth_append
      dest!: bind_Inr split: if_splits)


lemma total_Num_map: "total (map (\<lambda>g. Num (w g)) gs) = (\<Sum>g\<leftarrow>gs. w g)"
  by (simp add: total_def comp_def)

lemma summable_Num_map: "list_all summable_cell (map (\<lambda>g. Num (w g)) gs)"
  by (simp add: list_all_iff)

text \<open>
  C3, as the code has it. Whenever the segment revenue table is computed, no order has a
  null customer segment, and the purchase amounts are whole numbers that add without
  rounding, the \<^verbatim>\<open>total_revenue\<close> column of the table sums to the headline total
  revenue. An order with a null segment belongs to no group, so the table leaves its amount
  out while the headline sum counts it; and on amounts that do not add exactly the two sums
  are taken in different orders and can differ in the last digits.
\<close>

theorem segment_revenue_sums_to_total:
  assumes ok: "revenue_by_segment orders_df = Inr t"
    and nn: "Null \<notin> set (col_values orders_df ''customer_segment'')"
    and exact: "exact_amounts (col_values orders_df ''purchase_amount_usd'')"
  shows "\<exists>s. total_revenue orders_df = Inr s
           \<and> bind (column t ''total_revenue'') series_sum = Inr s"
proof -
  let ?keys = "[''customer_segment'']"
  let ?spec = "[(''purchase_amount_usd'', [Sum, Mean, Count]),
                (''estimated_profit_usd'',
                   [if has_col orders_df ''estimated_profit_usd'' then Sum else Count])]"
  let ?names = "[''segment'', ''total_revenue'', ''avg_revenue'', ''count'', ''total_profit'']"
  let ?p = "\<lambda>r. cell r (index_of ''purchase_amount_usd'' (columns orders_df))"
  let ?k = "key_of orders_df ?keys"
  let ?gs = "group_keys orders_df ?keys"
  let ?w = "\<lambda>g. total (map ?p (group_rows orders_df ?keys g))"
  from ok obtain t0 t1 where t0: "groupby_agg orders_df ?keys ?spec = Inr t0"
    and t1: "set_columns ?names t0 = Inr t1"
    and t: "sort_values_desc ''total_revenue'' t1 = Inr t"
    unfolding revenue_by_segment_def by (blast dest!: bind_Inr)
  from t1 have c1: "columns t1 = ?names" and r1: "rows t1 = rows t0"
    by (auto simp: set_columns_def split: if_splits)
  from t c1 have ct: "columns t = ?names"
    and rt: "rows t = rev (sort_key (\<lambda>r. cell r 1) (rev (rows t0)))"
    using r1 by (auto simp: sort_values_desc_def has_col_def split: if_splits)
  note g = groupby_agg_Inr [OF t0]
  from g(2) have hp: "has_col orders_df ''purchase_amount_usd''"
    by simp
  have each: "list_all2 (\<lambda>g y. cell y 1 = Num (?w g) \<and> list_all summable_cell (map ?p (group_rows orders_df ?keys g)))
                ?gs (rows t0)"
  proof (rule list.rel_mono_strong [OF g(4)])
    fix g y
    assume in_g: "g \<in> set ?gs"
      and row: "bind (agg_row orders_df ?spec (group_rows orders_df ?keys g)) (\<lambda>vs. Inr (g @ vs)) = Inr y"
    from in_g have "length g = 1"
      by (simp add: group_keys_length)
    with row show "cell y 1 = Num (?w g) \<and> list_all summable_cell (map ?p (group_rows orders_df ?keys g))"
      using sum_first_row by blast
  qed
  from each have cells: "map (\<lambda>y. cell y 1) (rows t0) = map (\<lambda>g. Num (?w g)) ?gs"
    by (induction rule: list_all2_induct) auto
  from each have grp_ok: "\<forall>g \<in> set ?gs. list_all summable_cell (map ?p (group_rows orders_df ?keys g))"
    by (induction rule: list_all2_induct) auto
  have cover: "\<forall>r \<in> set (rows orders_df). ?k r \<in> set ?gs"
    using nn by (auto simp: group_keys_set key_of_def col_values_def)
  have all_ok: "list_all summable_cell (map ?p (rows orders_df))"
  proof -
    have "summable_cell (?p r)" if "r \<in> set (rows orders_df)" for r
    proof -
      from that cover have "?k r \<in> set ?gs" by blast
      with grp_ok have "list_all summable_cell (map ?p (group_rows orders_df ?keys (?k r)))" by blast
      moreover from that have "r \<in> set (group_rows orders_df ?keys (?k r))"
        by (simp add: group_rows_def)
      ultimately show ?thesis by (simp add: list_all_iff)
    qed
    then show ?thesis by (simp add: list_all_iff)
  qed
  have whole: "total_revenue orders_df = Inr (total (map ?p (rows orders_df)))"
    using hp all_ok by (simp add: total_revenue_def column_def bind_def series_sum_def col_values_def)
  have colt: "col_values t ''total_revenue''
                = map (\<lambda>y. cell y 1) (rev (sort_key (\<lambda>r. cell r 1) (rev (rows t0))))"
    by (simp add: col_values_def ct rt)
  have "total (col_values t ''total_revenue'') = total (map (\<lambda>y. cell y 1) (rows t0))"
    unfolding colt by (rule total_mset) simp
  also have "\<dots> = (\<Sum>g\<leftarrow>?gs. ?w g)"
    by (simp only: cells total_Num_map)
  also have "\<dots> = (\<Sum>g\<leftarrow>?gs. \<Sum>r\<leftarrow>filter (\<lambda>r. ?k r = g) (rows orders_df). num_of (?p r))"
    by (simp add: total_def group_rows_def comp_def)
  also have "\<dots> = (\<Sum>r\<leftarrow>rows orders_df. num_of (?p r))"
    by (rule sum_by_groups [OF group_keys_distinct cover])
  also have "\<dots> = total (map ?p (rows orders_df))"
    by (simp add: total_def comp_def)
  finally have eq: "total (col_values t ''total_revenue'') = total (map ?p (rows orders_df))" .
  have "set (col_values t ''total_revenue'') = set (map (\<lambda>g. Num (?w g)) ?gs)"
    unfolding colt using cells by (metis set_map set_rev set_sort)
  then have "list_all summable_cell (col_values t ''total_revenue'')"
    by (auto simp: list_all_iff)
  then have "bind (column t ''total_revenue'') series_sum = Inr (total (map ?p (rows orders_df)))"
    using eq ct by (simp add: column_def has_col_def bind_def series_sum_def)
  with whole show ?thesis by blast
qed

theorem segment_revenue_sums_to_total_witness:
  "revenue_by_segment segment_orders =
     Inr \<lparr>columns = [''segment'', ''total_revenue'', ''avg_revenue'', ''count'', ''total_profit''],
          rows = [[Str ''VIP'', Num 40, Num 20, Num 2, Num 1],
                  [Str ''Regular'', Num 20, Num 20, Num 1, Num 2]]\<rparr>
   \<and> Null \<notin> set (col_values segment_orders ''customer_segment'')
   \<and> exact_amounts (col_values segment_orders ''purchase_amount_usd'')
   \<and> total_revenue segment_orders = Inr 60
   \<and> bind (column \<lparr>columns = [''segment'', ''total_revenue'', ''avg_revenue'', ''count'',
                               ''total_profit''],
                    rows = [[Str ''VIP'', Num 40, Num 20, Num 2, Num 1],
                            [Str ''Regular'', Num 20, Num 20, Num 1, Num 2]]\<rparr>
              ''total_revenue'') series_sum = Inr 60"
proof -
  have t: "revenue_by_segment segment_orders =
     Inr \<lparr>columns = [''segment'', ''total_revenue'', ''avg_revenue'', ''count'', ''total_profit''],
          rows = [[Str ''VIP'', Num 40, Num 20, Num 2, Num 1],
                  [Str ''Regular'', Num 20, Num 20, Num 1, Num 2]]\<rparr>"
    by code_simp
  have n: "Null \<notin> set (col_values segment_orders ''customer_segment'')"
    by code_simp
  have x: "exact_amounts (col_values segment_orders ''purchase_amount_usd'')"
    by (simp add: exact_amounts_def whole_amount_def segment_orders_def col_values_def cell_def)
  have h: "total_revenue segment_orders = Inr 60"
    by code_simp
  from segment_revenue_sums_to_total [OF t n x] h
  have "bind (column \<lparr>columns = [''segment'', ''total_revenue'', ''avg_revenue'', ''count'',
                               ''total_profit''],
                    rows = [[Str ''VIP'', Num 40, Num 20, Num 2, Num 1],
                            [Str ''Regular'', Num 20, Num 20, Num 1, Num 2]]\<rparr>
              ''total_revenue'') series_sum = Inr 60"
    by auto
  with t n x h show ?thesis
    by blast
qed

text \<open>
  The claim as written fails: with one order of 10 in segment VIP and one order of 5 with a
  null segment, the table's total revenue column sums to 10 and the headline total is 15.
\<close>

theorem segment_revenue_misses_null_segment:
  "exact_amounts (col_values unsegmented_orders ''purchase_amount_usd'')
   \<and> revenue_by_segment unsegmented_orders =
     Inr \<lparr>columns = [''segment'', ''total_revenue'', ''avg_revenue'', ''count'', ''total_profit''],
          rows = [[Str ''VIP'', Num 10, Num 10, Num 1, Num 1]]\<rparr>
   \<and> bind (column \<lparr>columns = [''segment'', ''total_revenue'', ''avg_revenue'', ''count'',
                               ''total_profit''],
                    rows = [[Str ''VIP'', Num 10, Num 10, Num 1, Num 1]]\<rparr>
              ''total_revenue'') series_sum = Inr 10
   \<and> total_revenue unsegmented_orders = Inr 15"
proof -
  have "exact_amounts (col_values unsegmented_orders ''purchase_amount_usd'')"
    by (simp add: exact_amounts_def whole_amount_def unsegmented_orders_def col_values_def
        cell_def)
  moreover have "revenue_by_segment unsegmented_orders =
     Inr \<lparr>columns = [''segment'', ''total_revenue'', ''avg_revenue'', ''count'', ''total_profit''],
          rows = [[Str ''VIP'', Num 10, Num 10, Num 1, Num 1]]\<rparr>"
    by code_simp
  moreover have "bind (column \<lparr>columns = [''segment'', ''total_revenue'', ''avg_revenue'',
                                          ''count'', ''total_profit''],
                    rows = [[Str ''VIP'', Num 10, Num 10, Num 1, Num 1]]\<rparr>
              ''total_revenue'') series_sum = Inr 10"
    by code_simp
  moreover have "total_revenue unsegmented_orders = Inr 15"
    by code_simp
  ultimately show ?thesis
    by blast
qed

text \<open>
  Taken alone, the segment revenue grouping and the VIP-Premium grouping by category raise
  a KeyError on a table without the columns \<^verbatim>\<open>estimated_profit_usd\<close> and
  \<^verbatim>\<open>estimated_clv\<close>: the dictionary names the column in both branches of the
  conditional. The headline profit of line 348 falls back to 0 on the same table.
\<close>

lemma groupings_alone_raise:
  "revenue_by_segment no_profit_orders = Inl (KeyError ''estimated_profit_usd'')
   \<and> bind (select_vip_premium no_profit_orders) vip_category = Inl (KeyError ''estimated_clv'')
   \<and> total_profit no_profit_orders = Inr 0"
  by code_simp

subsection \<open>Satisfaction pivot\<close>

lemma key_of_two: "key_of df [a, b] r = [cell r (index_of a (columns df)), cell r (index_of b (columns df))]"
  by (simp add: key_of_def)

lemma satisfaction_by_category_keys:
  assumes "satisfaction_by_category orders_df = Inr sbc"
  shows "columns sbc = [''category'', ''satisfaction_level'', ''count'', ''revenue'']"
    and "map (key_of sbc [''category'', ''satisfaction_level'']) (rows sbc)
           = group_keys orders_df [''category'', ''satisfaction_level'']"
proof -
  let ?keys = "[''category'', ''satisfaction_level'']"
  let ?spec = "[(''purchase_amount_usd'', [Count, Sum])]"
  from assms obtain t0 where t0: "groupby_agg orders_df ?keys ?spec = Inr t0"
    and s: "set_columns [''category'', ''satisfaction_level'', ''count'', ''revenue''] t0 = Inr sbc"
    unfolding satisfaction_by_category_def by (blast dest!: bind_Inr)
  from s show c: "columns sbc = [''category'', ''satisfaction_level'', ''count'', ''revenue'']"
    by (auto simp: set_columns_def split: if_splits)
  from s have r: "rows sbc = rows t0"
    by (auto simp: set_columns_def split: if_splits)
  note g = groupby_agg_Inr [OF t0]
  have "list_all2 (\<lambda>g y. key_of sbc ?keys y = g) (group_keys orders_df ?keys) (rows t0)"
  proof (rule list.rel_mono_strong [OF g(4)])
    fix g y
    assume in_g: "g \<in> set (group_keys orders_df ?keys)"
      and row: "bind (agg_row orders_df ?spec (group_rows orders_df ?keys g)) (\<lambda>vs. Inr (g @ vs)) = Inr y"
    from in_g have "length g = 2"
      by (simp add: group_keys_length)
    then obtain a b where "g = [a, b]"
      by (cases g; cases "tl g") auto
    moreover from row obtain vs where "y = g @ vs"
      by (auto dest!: bind_Inr)
    ultimately show "key_of sbc ?keys y = g"
      by (simp add: key_of_two c cell_def)
  qed
  then have "map (key_of sbc ?keys) (rows t0) = group_keys orders_df ?keys"
    by (induction rule: list_all2_induct) auto
  with r show "map (key_of sbc ?keys) (rows sbc) = group_keys orders_df ?keys"
    by simp
qed

lemma group_keys_idem:
  "map (key_of sbc keys) (rows sbc) = group_keys df keys \<Longrightarrow>
   set (group_keys sbc keys) = set (group_keys df keys)"
  by (auto simp: group_keys_def)

lemma pivot_table_sum_columns:
  "pivot_table_sum df idx cols vals = Inr p \<Longrightarrow>
   set (pcolumns p) = (\<lambda>g. cell g 1) ` set (group_keys df [idx, cols])"
  by (auto simp: pivot_table_sum_def Let_def dest!: bind_Inr split: if_splits)

lemma level_in_group_keys:
  "Str l \<in> (\<lambda>g. cell g 1) ` set (group_keys df [''category'', ''satisfaction_level''])
   \<longleftrightarrow> Str l \<in> set (levels_present df)"
proof
  let ?c = "\<lambda>r. cell r (index_of ''category'' (columns df))"
  let ?s = "\<lambda>r. cell r (index_of ''satisfaction_level'' (columns df))"
  assume "Str l \<in> (\<lambda>g. cell g 1) ` set (group_keys df [''category'', ''satisfaction_level''])"
  then obtain g where g: "g \<in> set (group_keys df [''category'', ''satisfaction_level''])"
    and e: "Str l = cell g 1"
    by blast
  from g obtain r where r: "r \<in> set (rows df)" and gr: "g = [?c r, ?s r]" and nn: "Null \<notin> set g"
    by (auto simp: group_keys_set key_of_two)
  from e gr have "?s r = Str l"
    by (simp add: cell_def)
  moreover from nn gr have "?c r \<noteq> Null"
    by auto
  ultimately show "Str l \<in> set (levels_present df)"
    using r by (force simp: levels_present_def)
next
  let ?c = "\<lambda>r. cell r (index_of ''category'' (columns df))"
  let ?s = "\<lambda>r. cell r (index_of ''satisfaction_level'' (columns df))"
  assume "Str l \<in> set (levels_present df)"
  then obtain r where r: "r \<in> set (rows df)" and c: "?c r \<noteq> Null" and s: "?s r = Str l"
    by (auto simp: levels_present_def)
  then have "[?c r, Str l] \<in> set (group_keys df [''category'', ''satisfaction_level''])"
    by (force simp: group_keys_set key_of_two)
  then have "cell [?c r, Str l] 1
               \<in> (\<lambda>g. cell g 1) ` set (group_keys df [''category'', ''satisfaction_level''])"
    by (rule imageI)
  then show "Str l \<in> (\<lambda>g. cell g 1) ` set (group_keys df [''category'', ''satisfaction_level''])"
    by (simp add: cell_def)
qed

lemma select_pivot_columns_Inr:
  "select_pivot_columns labels p0 = Inr p \<Longrightarrow> pcolumns p = labels"
  by (auto simp: select_pivot_columns_def split: list.splits)

text \<open>
  C9, as the code has it. Whenever the pivot is computed and at least one canonical level
  occurs on an order that has a category, the pivot's columns are the sequence
  Very Satisfied, Satisfied, Neutral, Dissatisfied filtered to the levels that occur on
  orders with a category; when all four occur there, the columns are exactly that sequence.
  A level that occurs only on orders with a null category never reaches the pivot.
\<close>

theorem satisfaction_pivot_column_order:
  assumes ok: "pivot_satisfaction orders_df = Inr p"
    and some: "\<exists>level \<in> set satisfaction_order. Str level \<in> set (levels_present orders_df)"
  shows "pcolumns p = map Str (filter (\<lambda>level. Str level \<in> set (levels_present orders_df))
                                satisfaction_order)
       \<and> ((\<forall>level \<in> set satisfaction_order. Str level \<in> set (levels_present orders_df))
            \<longrightarrow> pcolumns p = map Str satisfaction_order)"
proof -
  from ok obtain sbc p0 where sbc: "satisfaction_by_category orders_df = Inr sbc"
    and p0: "pivot_table_sum sbc ''category'' ''satisfaction_level'' ''count'' = Inr p0"
    and p: "order_levels p0 = Inr p"
    unfolding pivot_satisfaction_def by (blast dest!: bind_Inr)
  have mem: "Str l \<in> set (pcolumns p0) \<longleftrightarrow> Str l \<in> set (levels_present orders_df)" for l
    using pivot_table_sum_columns [OF p0]
      group_keys_idem [OF satisfaction_by_category_keys(2) [OF sbc]]
      level_in_group_keys [of l orders_df]
    by simp
  let ?available = "filter (\<lambda>level. Str level \<in> set (levels_present orders_df)) satisfaction_order"
  have av: "filter (\<lambda>level. Str level \<in> set (pcolumns p0)) satisfaction_order = ?available"
    by (simp add: mem)
  from some have ne: "?available \<noteq> []"
    by (simp add: filter_empty_conv)
  from p av ne have "select_pivot_columns (map Str ?available) p0 = Inr p"
    by (simp add: order_levels_def Let_def)
  then have first: "pcolumns p = map Str ?available"
    by (rule select_pivot_columns_Inr)
  moreover have "(\<forall>level \<in> set satisfaction_order. Str level \<in> set (levels_present orders_df))
                   \<longrightarrow> ?available = satisfaction_order"
    by simp
  ultimately show ?thesis by simp
qed

theorem satisfaction_pivot_column_order_witness:
  "pivot_satisfaction rated_orders =
     Inr \<lparr>index = [Str ''Clothing'', Str ''Shoes''],
          pcolumns = [Str ''Very Satisfied'', Str ''Satisfied'', Str ''Neutral'', Str ''Dissatisfied''],
          cells = [[Num 0, Num 1, Num 2, Num 1], [Num 1, Num 0, Num 0, Num 0]]\<rparr>
   \<and> list_all (\<lambda>level. Str level \<in> set (levels_present rated_orders)) satisfaction_order
   \<and> map Str satisfaction_order
       = [Str ''Very Satisfied'', Str ''Satisfied'', Str ''Neutral'', Str ''Dissatisfied'']"
proof -
  have p: "pivot_satisfaction rated_orders =
     Inr \<lparr>index = [Str ''Clothing'', Str ''Shoes''],
          pcolumns = [Str ''Very Satisfied'', Str ''Satisfied'', Str ''Neutral'', Str ''Dissatisfied''],
          cells = [[Num 0, Num 1, Num 2, Num 1], [Num 1, Num 0, Num 0, Num 0]]\<rparr>"
    by code_simp
  have a: "list_all (\<lambda>level. Str level \<in> set (levels_present rated_orders)) satisfaction_order"
    by (simp add: satisfaction_order_def levels_present_def rated_orders_def cell_def)
  then have s: "\<exists>level \<in> set satisfaction_order. Str level \<in> set (levels_present rated_orders)"
    by (simp add: satisfaction_order_def)
  note t = satisfaction_pivot_column_order [OF p s]
  have all: "\<forall>level \<in> set satisfaction_order. Str level \<in> set (levels_present rated_orders)"
    using a by (simp only: list_all_iff)
  from t all have "pcolumns \<lparr>index = [Str ''Clothing'', Str ''Shoes''],
          pcolumns = [Str ''Very Satisfied'', Str ''Satisfied'', Str ''Neutral'', Str ''Dissatisfied''],
          cells = [[Num 0, Num 1, Num 2, Num 1], [Num 1, Num 0, Num 0, Num 0]]\<rparr>
        = map Str satisfaction_order"
    by blast
  then have "map Str satisfaction_order
       = [Str ''Very Satisfied'', Str ''Satisfied'', Str ''Neutral'', Str ''Dissatisfied'']"
    by simp
  with p a show ?thesis
    by blast
qed

text \<open>
  The claim as written fails: all four levels occur in this table, Neutral only on an order
  whose category is null, and the pivot has three columns.
\<close>

theorem satisfaction_pivot_drops_uncategorised_level:
  "list_all (\<lambda>level. Str level \<in> set (col_values uncategorised_orders ''satisfaction_level''))
     satisfaction_order
   \<and> pivot_satisfaction uncategorised_orders =
     Inr \<lparr>index = [Str ''Clothing'', Str ''Shoes''],
          pcolumns = [Str ''Very Satisfied'', Str ''Satisfied'', Str ''Dissatisfied''],
          cells = [[Num 0, Num 1, Num 1], [Num 1, Num 0, Num 0]]\<rparr>"
  proof -
  have "list_all (\<lambda>level. Str level \<in> set (col_values uncategorised_orders ''satisfaction_level''))
          satisfaction_order"
    by (simp add: satisfaction_order_def col_values_def uncategorised_orders_def cell_def)
  moreover have "pivot_satisfaction uncategorised_orders =
     Inr \<lparr>index = [Str ''Clothing'', Str ''Shoes''],
          pcolumns = [Str ''Very Satisfied'', Str ''Satisfied'', Str ''Dissatisfied''],
          cells = [[Num 0, Num 1, Num 1], [Num 1, Num 0, Num 0]]\<rparr>"
    by code_simp
  ultimately show ?thesis
    by (rule conjI)
qed

subsection \<open>Result cache\<close>

lemma get_or_fetch_hit:
  "cache k = Some e \<Longrightarrow> live now e \<Longrightarrow>
   get_or_fetch k ttl r now cache = ((Inr (payload e), 0), cache)"
  by (simp add: get_or_fetch_def)

lemma get_or_fetch_calls_le: "snd (fst (get_or_fetch k ttl r now cache)) \<le> 1"
  by (simp add: get_or_fetch_def split: option.splits sum.splits)

lemma get_or_fetch_stores:
  assumes "get_or_fetch k ttl r now cache = ((Inr v, n), cache')"
  shows "(n = 0 \<and> cache' = cache \<and> (\<exists>e. cache k = Some e \<and> live now e))
       \<or> (n = 1 \<and> cache' k = Some \<lparr>payload = v, fetched_at = now, entry_ttl = ttl\<rparr>)"
  using assms by (auto simp: get_or_fetch_def split: option.splits sum.splits if_splits)

text \<open>
  C2, as the cache has it. For every ttl above 0 and two calls with the same query identity
  at most ttl apart, the second on a cache that still holds what the first left for that
  identity: when the first call returns a table (its fetch, if it ran, did not fail), the
  two calls together run the fetch at most once. The ttl is 10 seconds for the raw order
  table and 30 seconds for each of the four preference views.
\<close>

theorem get_or_fetch_at_most_once:
  assumes ttl: "0 < ttl"
    and order: "t1 \<le> t2" and within: "t2 - t1 < ttl"
    and first: "get_or_fetch k ttl r1 t1 c0 = ((Inr v, n1), c1)"
    and between: "c2 k = c1 k"
  shows "n1 + snd (fst (get_or_fetch k ttl r2 t2 c2)) \<le> 1
       \<and> cache_ttl Fetch_latest_orders = 10
       \<and> cache_ttl Fetch_age_preferences = 30
       \<and> cache_ttl Fetch_gender_preferences = 30
       \<and> cache_ttl Fetch_location_preferences = 30
       \<and> cache_ttl Fetch_age_gender_category = 30"
proof -
  have "n1 + snd (fst (get_or_fetch k ttl r2 t2 c2)) \<le> 1"
    using get_or_fetch_stores [OF first]
  proof
    assume "n1 = 0 \<and> c1 = c0 \<and> (\<exists>e. c0 k = Some e \<and> live t1 e)"
    then have "n1 = 0" by simp
    then show ?thesis
      using get_or_fetch_calls_le [of k ttl r2 t2 c2] by simp
  next
    assume a: "n1 = 1 \<and> c1 k = Some \<lparr>payload = v, fetched_at = t1, entry_ttl = ttl\<rparr>"
    with between have e: "c2 k = Some \<lparr>payload = v, fetched_at = t1, entry_ttl = ttl\<rparr>"
      by simp
    have "live t2 \<lparr>payload = v, fetched_at = t1, entry_ttl = ttl\<rparr>"
      using within by (simp add: live_def)
    with e have "get_or_fetch k ttl r2 t2 c2 = ((Inr v, 0), c2)"
      by (simp add: get_or_fetch_hit)
    with a show ?thesis by simp
  qed
  then show ?thesis by simp
qed

theorem get_or_fetch_at_most_once_witness:
  "(0::rat) < cache_ttl Fetch_latest_orders \<and> (0::rat) \<le> 5 \<and> (5::rat) - 0 < cache_ttl Fetch_latest_orders
   \<and> cached Fetch_latest_orders [10000] (Inr one_row) 0 Map.empty
       = ((Inr one_row, 1),
          [(Fetch_latest_orders, [10000]) \<mapsto> \<lparr>payload = one_row, fetched_at = 0, entry_ttl = 10\<rparr>])
   \<and> 1 + snd (fst (cached Fetch_latest_orders [10000] (Inr empty_frame) 5
          [(Fetch_latest_orders, [10000]) \<mapsto> \<lparr>payload = one_row, fetched_at = 0, entry_ttl = 10\<rparr>]))
       \<le> (1::nat)"
proof -
  let ?k = "(Fetch_latest_orders, [10000::int])"
  let ?c1 = "[?k \<mapsto> \<lparr>payload = one_row, fetched_at = 0, entry_ttl = 10\<rparr>]"
  have ttl: "(0::rat) < cache_ttl Fetch_latest_orders" by simp
  have order: "(0::rat) \<le> 5" by simp
  have within: "(5::rat) - 0 < cache_ttl Fetch_latest_orders" by simp
  have first: "get_or_fetch ?k (cache_ttl Fetch_latest_orders) (Inr one_row) 0 Map.empty
                 = ((Inr one_row, 1), ?c1)"
    by (simp add: get_or_fetch_def)
  have between: "?c1 ?k = ?c1 ?k" by (rule refl)
  from get_or_fetch_at_most_once [where ?c2.0 = ?c1 and ?r2.0 = "Inr empty_frame",
      OF ttl order within first between]
  have "1 + snd (fst (get_or_fetch ?k (cache_ttl Fetch_latest_orders) (Inr empty_frame) 5 ?c1)) \<le> 1"
    by blast
  with ttl order within first show ?thesis
    by (simp only: cached_def)
qed

text \<open>
  The claim as written fails when the fetch fails: nothing is stored, so a second call five
  seconds later, within the ttl of 10, runs the fetch again.
\<close>

theorem failed_fetch_runs_twice:
  "cached Fetch_latest_orders [10000] (Inl (QueryError ''credentials'')) 0 Map.empty
     = ((Inl (QueryError ''credentials''), 1), Map.empty)
   \<and> cached Fetch_latest_orders [10000] (Inl (QueryError ''credentials'') :: error + frame) 5
       Map.empty
     = ((Inl (QueryError ''credentials''), 1), Map.empty)
   \<and> (5::rat) - 0 < cache_ttl Fetch_latest_orders"
  by (simp add: cached_def get_or_fetch_def)

subsection \<open>Raw order fetch\<close>

lemma index_of_less: "c \<in> set cs \<Longrightarrow> index_of c cs < length cs"
  by (induction cs) auto

lemma nth_index_of: "c \<in> set cs \<Longrightarrow> cs ! index_of c cs = c"
  by (induction cs) auto

lemma cell_map_index_of: "c \<in> set cs \<Longrightarrow> cell (map f cs) (index_of c cs) = f c"
  by (simp add: cell_def index_of_less nth_index_of)

lemma sorted_desc_rev_sort_key:
  "sorted_wrt (\<lambda>a b. k b \<le> k a) (rev (sort_key k xs))"
proof -
  have "sorted (map k (sort_key k xs))"
    by (rule sorted_sort_key)
  then have "sorted_wrt (\<lambda>a b. k a \<le> k b) (sort_key k xs)"
    by (simp add: sorted_map)
  then show ?thesis
    by (simp add: sorted_wrt_rev)
qed

lemma sorted_wrt_take: "sorted_wrt P xs \<Longrightarrow> sorted_wrt P (take n xs)"
  by (metis append_take_drop_id sorted_wrt_append)

lemma run_orders_query:
  assumes "run_query w (orders_query cfg n) = Inr df"
  shows "len df \<le> nat n"
    and "sorted_wrt (\<lambda>a b. cell b (index_of ''processed_time'' (columns df))
                            \<le> cell a (index_of ''processed_time'' (columns df))) (rows df)"
proof -
  let ?src = "full_name cfg (TABLE cfg)"
  from assms obtain rel where rel: "relations w ?src = Some rel"
    and df: "df = limit_rows (Some n) (project order_columns
                    (order_rows (Some (''processed_time'', True)) rel))"
    by (auto simp: run_query_def orders_query_def split: option.splits if_splits)
  let ?k = "\<lambda>r. cell r (index_of ''processed_time'' (columns rel))"
  let ?p = "\<lambda>r. map (\<lambda>c. cell r (index_of c (columns rel))) order_columns"
  have rows: "rows df = take (nat n) (map ?p (rev (sort_key ?k (rows rel))))"
    and cols: "columns df = order_columns"
    by (simp_all add: df limit_rows_def project_def order_rows_def Let_def)
  from rows show "len df \<le> nat n"
    by (simp add: len_def)
  have pt: "''processed_time'' \<in> set order_columns"
    by (simp add: order_columns_def)
  have key: "cell (?p r) (index_of ''processed_time'' order_columns) = ?k r" for r
    using pt by (rule cell_map_index_of)
  have "sorted_wrt (\<lambda>a b. ?k b \<le> ?k a) (rev (sort_key ?k (rows rel)))"
    by (rule sorted_desc_rev_sort_key)
  then have "sorted_wrt (\<lambda>a b. cell b (index_of ''processed_time'' order_columns)
                                  \<le> cell a (index_of ''processed_time'' order_columns))
               (map ?p (rev (sort_key ?k (rows rel))))"
    by (simp only: sorted_wrt_map key)
  then show "sorted_wrt (\<lambda>a b. cell b (index_of ''processed_time'' (columns df))
                            \<le> cell a (index_of ''processed_time'' (columns df))) (rows df)"
    unfolding rows cols by (rule sorted_wrt_take)
qed

lemma io_bind_Inr:
  "io_bind m f = (es, Inr y) \<Longrightarrow>
   \<exists>es1 x es2. m = (es1, Inr x) \<and> f x = (es2, Inr y) \<and> es = es1 @ es2"
  by (auto simp: io_bind_def split: prod.splits sum.splits)

lemma seq_Inr:
  "seq m k = (es, Inr y) \<Longrightarrow>
   \<exists>es1 es2. m = (es1, Inr ()) \<and> k = (es2, Inr y) \<and> es = es1 @ es2"
  by (auto simp: seq_def dest!: io_bind_Inr)

lemma fetch_latest_orders_result:
  assumes "fetch_latest_orders cfg w limit_arg = (es, Inr df)"
  shows "run_query w (orders_query cfg (case limit_arg of None \<Rightarrow> default_limit | Some n \<Rightarrow> n))
           = Inr df \<or> df = empty_frame"
  using assms
  by (auto simp: fetch_latest_orders_def Let_def try_except_def lift_def seq_def io_bind_def
      emit_def ret_def split: prod.splits sum.splits if_splits)

subsection \<open>The render cycle\<close>

lemma io_bind_ok: "io_bind (es, Inr x) f = (es @ fst (f x), snd (f x))"
  by (simp add: io_bind_def split: prod.splits)

lemma io_bind_err: "io_bind (es, Inl e) f = (es, Inl e)"
  by (simp add: io_bind_def)

lemma seq_ok: "seq (es, Inr ()) k = (es @ fst k, snd k)"
  by (simp add: seq_def io_bind_ok)

lemma seq_err: "seq (es, Inl e) k = (es, Inl e)"
  by (simp add: seq_def io_bind_err)

lemma try_except_ok: "try_except (es, Inr x) h = (es, Inr x)"
  by (simp add: try_except_def)

lemma try_except_err: "try_except (es, Inl e) h = (es @ fst (h e), snd (h e))"
  by (simp add: try_except_def split: prod.splits)

lemma fetch_latest_orders_events:
  assumes "fetch_latest_orders cfg w limit_arg = (es, Inr df)"
  shows "list_all (order_fetch_event cfg) es"
proof -
  let ?n = "case limit_arg of None \<Rightarrow> default_limit | Some given \<Rightarrow> given"
  from assms have auth: "auth_failure w = None"
    by (cases "auth_failure w")
      (auto simp: fetch_latest_orders_def init_bigquery_client_def Let_def ret_def emit_def
        raise_def seq_ok seq_err split: if_splits)
  show ?thesis
  proof (cases "run_query w (orders_query cfg ?n)")
    case (Inr t)
    with assms auth show ?thesis
      by (auto simp: fetch_latest_orders_def init_bigquery_client_def Let_def ret_def emit_def
          lift_def seq_ok try_except_ok order_fetch_event_def orders_query_def)
  next
    case (Inl e)
    with assms auth show ?thesis
      by (auto simp: fetch_latest_orders_def init_bigquery_client_def Let_def ret_def emit_def
          lift_def seq_ok try_except_err order_fetch_event_def orders_query_def
          split: if_splits)
  qed
qed

text \<open>
  C10. If the fetched raw order table is empty, the cycle shows what the fetch itself
  reported (its query and, when the query failed, its error messages), then the single
  warning, and nothing else before the automatic refresh: no metric, no table, no chart, no
  view query.
\<close>

theorem empty_table_only_warns:
  assumes fetched: "fetch_latest_orders cfg w (Some 10000) = (es, Inr orders_df)"
    and empty: "frame_empty orders_df"
  shows "cycle cfg w u =
           (es @ [Warning ''Aucune donnee trouvee dans BigQuery'']
               @ (if auto_refresh u then [Sleep (refresh_interval u), Rerun] else []),
            Inr ())
       \<and> list_all (order_fetch_event cfg) es"
proof -
  have "render cfg w u = (es @ [Warning ''Aucune donnee trouvee dans BigQuery''], Inr orders_df)"
    using fetched empty by (simp add: render_def io_bind_ok seq_ok emit_def ret_def)
  then have "main_block cfg w u = (es @ [Warning ''Aucune donnee trouvee dans BigQuery''], Inr ())"
    by (simp add: main_block_def io_bind_ok try_except_ok ret_def)
  then have "cycle cfg w u =
           (es @ [Warning ''Aucune donnee trouvee dans BigQuery'']
               @ (if auto_refresh u then [Sleep (refresh_interval u), Rerun] else []),
            Inr ())"
    by (simp add: cycle_def seq_ok emit_def ret_def)
  with fetch_latest_orders_events [OF fetched] show ?thesis
    by blast
qed

theorem empty_table_only_warns_witness:
  "fetch_latest_orders sample_config idle_warehouse (Some 10000)
     = ([Query ''p.d.orders''], Inr \<lparr>columns = order_columns, rows = []\<rparr>)
   \<and> frame_empty \<lparr>columns = order_columns, rows = []\<rparr>
   \<and> cycle sample_config idle_warehouse sample_ui
     = ([Query ''p.d.orders'', Warning ''Aucune donnee trouvee dans BigQuery'', Sleep 15, Rerun],
        Inr ())"
proof -
  have f: "fetch_latest_orders sample_config idle_warehouse (Some 10000)
     = ([Query ''p.d.orders''], Inr \<lparr>columns = order_columns, rows = []\<rparr>)"
    by code_simp
  have e: "frame_empty \<lparr>columns = order_columns, rows = []\<rparr>"
    by (simp add: frame_empty_def)
  from empty_table_only_warns [OF f e, of sample_ui]
  have "cycle sample_config idle_warehouse sample_ui
     = ([Query ''p.d.orders'', Warning ''Aucune donnee trouvee dans BigQuery'', Sleep 15, Rerun],
        Inr ())"
    by (simp add: sample_ui_def)
  with f e show ?thesis
    by blast
qed

lemma fst_io_bind: "\<exists>rest. fst (io_bind m f) = fst m @ rest"
  by (cases m; cases "snd m") (auto simp: io_bind_def split: prod.splits)

lemma fst_seq: "\<exists>rest. fst (seq m k) = fst m @ rest"
  unfolding seq_def by (rule fst_io_bind)

lemma fst_try_except: "\<exists>rest. fst (try_except m h) = fst m @ rest"
  by (cases m; cases "snd m") (auto simp: try_except_def split: prod.splits)

lemma cycle_starts_with_headline:
  assumes fetched: "fetch_latest_orders cfg w (Some 10000) = (es, Inr orders_df)"
    and nonempty: "\<not> frame_empty orders_df"
  shows "\<exists>rest. fst (cycle cfg w u) = es @ fst (headline orders_df) @ rest"
proof -
  let ?table = "\<lambda>df. orders_table df u"
  obtain r1 where r1: "fst (tabs cfg w orders_df) = fst (headline orders_df) @ r1"
    unfolding tabs_def using fst_io_bind by blast
  obtain r2 where r2: "fst (io_bind (tabs cfg w orders_df) ?table) = fst (tabs cfg w orders_df) @ r2"
    using fst_io_bind by blast
  have "fst (render cfg w u) = es @ fst (io_bind (tabs cfg w orders_df) ?table)"
    using fetched nonempty by (simp add: render_def io_bind_ok)
  with r1 r2 have render: "fst (render cfg w u) = es @ fst (headline orders_df) @ r1 @ r2"
    by simp
  obtain r3 where r3: "fst (io_bind (render cfg w u) (\<lambda>orders_df. ret ())) = fst (render cfg w u) @ r3"
    using fst_io_bind by blast
  obtain r4 where r4: "fst (main_block cfg w u)
                         = fst (io_bind (render cfg w u) (\<lambda>orders_df. ret ())) @ r4"
    unfolding main_block_def using fst_try_except by blast
  obtain r5 where r5: "fst (cycle cfg w u) = fst (main_block cfg w u) @ r5"
    unfolding cycle_def using fst_seq by blast
  from render r3 r4 r5 have "fst (cycle cfg w u) = es @ fst (headline orders_df) @ (r1 @ r2 @ r3 @ r4 @ r5)"
    by simp
  then show ?thesis by blast
qed

lemma cycle_on_empty_table:
  assumes "fetch_latest_orders cfg w (Some 10000) = (es, Inr orders_df)"
    and "frame_empty orders_df"
  shows "cycle cfg w u =
           (es @ [Warning ''Aucune donnee trouvee dans BigQuery'']
               @ (if auto_refresh u then [Sleep (refresh_interval u), Rerun] else []),
            Inr ())"
proof -
  have "render cfg w u = (es @ [Warning ''Aucune donnee trouvee dans BigQuery''], Inr orders_df)"
    using assms by (simp add: render_def io_bind_ok seq_ok emit_def ret_def)
  then have "main_block cfg w u = (es @ [Warning ''Aucune donnee trouvee dans BigQuery''], Inr ())"
    by (simp add: main_block_def io_bind_ok try_except_ok ret_def)
  then show ?thesis
    by (simp add: cycle_def seq_ok emit_def ret_def)
qed

text \<open>
  C6. Whenever the raw order fetch returns, it returns at most N rows, ordered by
  processing timestamp descending (freshest first), where N is the limit it is called
  with. The cycle calls it with 10000, at line 325, the only call of the script: what the
  cycle shows after the events of that fetch is the warning when the table fetched under
  the limit 10000 is empty and its headline metrics otherwise. The bound and the order are
  those of the warehouse, modelled from the spec; the function's part is the query it
  sends.
\<close>

theorem fetch_latest_orders_bounded_sorted:
  assumes "fetch_latest_orders cfg w limit_arg = (es, Inr df)"
  shows "len df \<le> nat (case limit_arg of None \<Rightarrow> default_limit | Some n \<Rightarrow> n)
       \<and> sorted_wrt (\<lambda>a b. cell b (index_of ''processed_time'' (columns df))
                            \<le> cell a (index_of ''processed_time'' (columns df))) (rows df)
       \<and> (limit_arg = Some 10000 \<longrightarrow>
            len df \<le> 10000
          \<and> (\<exists>rest. fst (cycle cfg w u) =
                 es @ (if frame_empty df then [Warning ''Aucune donnee trouvee dans BigQuery'']
                       else fst (headline df)) @ rest))"
proof -
  let ?n = "case limit_arg of None \<Rightarrow> default_limit | Some n \<Rightarrow> n"
  have bound: "len df \<le> nat ?n
       \<and> sorted_wrt (\<lambda>a b. cell b (index_of ''processed_time'' (columns df))
                            \<le> cell a (index_of ''processed_time'' (columns df))) (rows df)"
    using fetch_latest_orders_result [OF assms]
  proof
    assume "run_query w (orders_query cfg ?n) = Inr df"
    from run_orders_query [OF this] show ?thesis
      by simp
  next
    assume "df = empty_frame"
    then show ?thesis
      by (simp add: empty_frame_def len_def)
  qed
  have "len df \<le> 10000
          \<and> (\<exists>rest. fst (cycle cfg w u) =
                 es @ (if frame_empty df then [Warning ''Aucune donnee trouvee dans BigQuery'']
                       else fst (headline df)) @ rest)"
    if l: "limit_arg = Some 10000"
  proof -
    from bound l have "len df \<le> 10000"
      by simp
    moreover from assms l have f: "fetch_latest_orders cfg w (Some 10000) = (es, Inr df)"
      by simp
    have "\<exists>rest. fst (cycle cfg w u) =
                 es @ (if frame_empty df then [Warning ''Aucune donnee trouvee dans BigQuery'']
                       else fst (headline df)) @ rest"
    proof (cases "frame_empty df")
      case True
      with cycle_on_empty_table [OF f True, of u] show ?thesis
        by simp
    next
      case False
      with cycle_starts_with_headline [OF f False, of u] show ?thesis
        by simp
    qed
    ultimately show ?thesis
      by blast
  qed
  with bound show ?thesis
    by blast
qed

theorem fetch_latest_orders_bounded_sorted_witness:
  "fetch_latest_orders sample_config sample_warehouse (Some 1)
     = ([Query ''p.d.orders''], Inr \<lparr>columns = order_columns, rows = [newer_order]\<rparr>)
   \<and> len \<lparr>columns = order_columns, rows = [newer_order]\<rparr> \<le> nat 1
   \<and> fetch_latest_orders sample_config sample_warehouse (Some 10000)
     = ([Query ''p.d.orders''],
        Inr \<lparr>columns = order_columns, rows = [newer_order, older_order]\<rparr>)
   \<and> len \<lparr>columns = order_columns, rows = [newer_order, older_order]\<rparr> \<le> 10000
   \<and> (\<exists>rest. fst (cycle sample_config sample_warehouse sample_ui) =
         [Query ''p.d.orders'']
         @ fst (headline \<lparr>columns = order_columns, rows = [newer_order, older_order]\<rparr>) @ rest)"
proof -
  have f1: "fetch_latest_orders sample_config sample_warehouse (Some 1)
             = ([Query ''p.d.orders''], Inr \<lparr>columns = order_columns, rows = [newer_order]\<rparr>)"
    by code_simp
  from fetch_latest_orders_bounded_sorted [OF f1, of sample_ui]
  have b1: "len \<lparr>columns = order_columns, rows = [newer_order]\<rparr> \<le> nat 1"
    by simp
  have f: "fetch_latest_orders sample_config sample_warehouse (Some 10000)
     = ([Query ''p.d.orders''],
        Inr \<lparr>columns = order_columns, rows = [newer_order, older_order]\<rparr>)"
    by code_simp
  have n: "\<not> frame_empty \<lparr>columns = order_columns, rows = [newer_order, older_order]\<rparr>"
    by (simp add: frame_empty_def order_columns_def)
  from fetch_latest_orders_bounded_sorted [OF f, of sample_ui] n
  have "len \<lparr>columns = order_columns, rows = [newer_order, older_order]\<rparr> \<le> 10000
   \<and> (\<exists>rest. fst (cycle sample_config sample_warehouse sample_ui) =
         [Query ''p.d.orders'']
         @ fst (headline \<lparr>columns = order_columns, rows = [newer_order, older_order]\<rparr>) @ rest)"
    by simp
  with f1 b1 f show ?thesis
    by blast
qed

subsection \<open>Groupings on fetched tables\<close>















lemma run_orders_query_columns:
  assumes "run_query w (orders_query cfg n) = Inr df"
  shows "columns df = order_columns"
proof -
  from assms obtain rel where
    "df = limit_rows (Some n) (project order_columns
                    (order_rows (Some (''processed_time'', True)) rel))"
    by (auto simp: run_query_def orders_query_def split: option.splits if_splits)
  then show ?thesis
    by (simp add: limit_rows_def project_def)
qed









lemma fetched_columns:
  assumes "fetch_latest_orders cfg w limit_arg = (es, Inr orders_df)"
    and "\<not> frame_empty orders_df"
  shows "columns orders_df = order_columns"
  using fetch_latest_orders_result [OF assms(1)] assms(2)
  by (auto simp: run_orders_query_columns frame_empty_def empty_frame_def)









subsection \<open>A missing view\<close>



lemma snd_io_bind:
  "snd (io_bind m f) = (case snd m of Inl e \<Rightarrow> Inl e | Inr x \<Rightarrow> snd (f x))"
  by (cases m; cases "snd m") (auto simp: io_bind_def split: prod.splits)

lemma snd_seq: "snd (seq m k) = (case snd m of Inl e \<Rightarrow> Inl e | Inr x \<Rightarrow> snd k)"
  unfolding seq_def by (rule snd_io_bind)











lemma fst_io_bind_split:
  "fst (io_bind m f) = fst m @ (case snd m of Inl e \<Rightarrow> [] | Inr x \<Rightarrow> fst (f x))"
  by (cases m; cases "snd m") (auto simp: io_bind_def split: prod.splits)

subsection \<open>The table of the latest orders\<close>

lemma new_object_appends: "\<exists>t. snd (new_object r s) = s @ t"
  by (cases r) (simp_all add: new_object_def)

lemma st_ret_appends: "\<exists>t. snd (st_ret x s) = s @ t"
  by (simp add: st_ret_def)

lemma st_bind_appends:
  assumes "\<And>s. \<exists>t. snd (m s) = s @ t" and "\<And>x s. \<exists>t. snd (f x s) = s @ t"
  shows "\<exists>t. snd (st_bind m f s) = s @ t"
proof (cases "m s")
  case (Pair r s1)
  from assms(1) [of s] Pair obtain t1 where s1: "s1 = s @ t1"
    by auto
  show ?thesis
  proof (cases r)
    case (Inl e)
    with Pair s1 show ?thesis
      by (simp add: st_bind_def)
  next
    case (Inr x)
    from assms(2) [of x s1] obtain t2 where "snd (f x s1) = s1 @ t2"
      by blast
    with Pair Inr s1 show ?thesis
      by (simp add: st_bind_def)
  qed
qed

lemma st_apply_filters_appends: "\<exists>t. snd (st_apply_filters r cf lf s) = s @ t"
  unfolding st_apply_filters_def
  by (intro st_bind_appends) (simp_all add: st_copy_def st_isin_def new_object_appends
      st_ret_appends)

lemma st_display_table_appends: "\<exists>t. snd (st_display_table r n s) = s @ t"
  unfolding st_display_table_def
  by (intro st_bind_appends) (simp_all add: st_getitem_def st_head_def new_object_appends)

lemma st_table_block_appends: "\<exists>t. snd (st_table_block r cf lf n s) = s @ t"
  unfolding st_table_block_def
  by (intro st_bind_appends st_apply_filters_appends st_display_table_appends st_ret_appends)

lemma object_append: "r < length s \<Longrightarrow> object (s @ t) r = object s r"
  by (simp add: object_def nth_append)

lemma object_new: "object (s @ [df]) (length s) = df"
  by (simp add: object_def)

lemma st_apply_filters_result:
  "case st_apply_filters r cf lf s of
     (Inl e, s') \<Rightarrow> apply_filters (object s r) cf lf = Inl e
   | (Inr filtered_df, s') \<Rightarrow>
       length s \<le> filtered_df \<and> filtered_df < length s'
     \<and> apply_filters (object s r) cf lf = Inr (object s' filtered_df)"
proof -
  let ?c = "copy (object s r)"
  let ?s1 = "s @ [?c]"
  have copied: "st_copy r s = (Inr (length s), ?s1)"
    by (simp add: st_copy_def new_object_def)
  define first where "first = (if cf \<noteq> [] then filter_isin ?c ''category'' cf else Inr ?c)"
  have engine: "apply_filters (object s r) cf lf =
          (case first of Inl e \<Rightarrow> Inl e
           | Inr f \<Rightarrow> if lf \<noteq> [] then filter_isin f ''location'' lf else Inr f)"
    by (simp add: apply_filters_def first_def)
  show ?thesis
  proof (cases first)
    case (Inl e)
    then have "cf \<noteq> []" and "filter_isin ?c ''category'' cf = Inl e"
      by (auto simp: first_def split: if_splits)
    then have "st_apply_filters r cf lf s = (Inl e, ?s1)"
      by (simp add: st_apply_filters_def st_bind_def copied st_isin_def new_object_def
          object_def)
    with engine Inl show ?thesis
      by simp
  next
    case (Inr f)
    obtain i s2 where second: "st_bind (st_copy r)
            (\<lambda>filtered_df. if cf \<noteq> [] then st_isin filtered_df ''category'' cf
                            else st_ret filtered_df) s = (Inr i, s2)"
      and i: "length s \<le> i" "i < length s2" "object s2 i = f"
    proof (cases "cf = []")
      case True
      with Inr have "f = ?c"
        by (simp add: first_def)
      with True that [of "length s" ?s1] show ?thesis
        by (simp add: st_bind_def copied st_ret_def object_def)
    next
      case False
      with Inr have "filter_isin ?c ''category'' cf = Inr f"
        by (simp add: first_def)
      with False that [of "Suc (length s)" "?s1 @ [f]"] show ?thesis
        by (simp add: st_bind_def copied st_isin_def new_object_def object_def nth_append)
    qed
    have rest: "st_apply_filters r cf lf s =
            (if lf \<noteq> [] then st_isin i ''location'' lf s2 else st_ret i s2)"
      using second
      by (simp add: st_apply_filters_def st_bind_def copied split: prod.splits sum.splits)
    show ?thesis
    proof (cases "lf = []")
      case True
      with rest engine Inr i show ?thesis
        by (simp add: st_ret_def)
    next
      case False
      show ?thesis
      proof (cases "filter_isin f ''location'' lf")
        case (Inl e)
        with False rest engine Inr i show ?thesis
          by (simp add: st_isin_def new_object_def)
      next
        case g: (Inr f2)
        with False rest engine Inr i show ?thesis
          by (simp add: st_isin_def new_object_def object_def nth_append)
      qed
    qed
  qed
qed

lemma available_columns: "filter (\<lambda>c. \<not> has_col df c) (filter (has_col df) cs) = []"
  by (induction cs) simp_all

lemma st_display_table_result:
  assumes "r < length s"
  shows "\<exists>shown s'. st_display_table r n s = (Inr shown, s') \<and> length s \<le> shown
           \<and> shown < length s' \<and> object s' shown = display_table (object s r) n
           \<and> object s' r = object s r"
  using assms
  by (simp add: st_display_table_def st_bind_def st_getitem_def st_head_def new_object_def
      available_columns display_table_def object_new object_append object_def nth_append)

lemma st_table_block_result:
  assumes "r < length s"
  shows "case st_table_block r cf lf n s of
     (Inl e, s') \<Rightarrow> apply_filters (object s r) cf lf = Inl e
   | (Inr (filtered_df, shown), s') \<Rightarrow>
       length s \<le> filtered_df \<and> length s \<le> shown
     \<and> apply_filters (object s r) cf lf = Inr (object s' filtered_df)
     \<and> object s' shown = display_table (object s' filtered_df) n"
proof (cases "st_apply_filters r cf lf s")
  case (Pair res s1)
  show ?thesis
  proof (cases res)
    case (Inl e)
    with Pair st_apply_filters_result [where r = r and cf = cf and lf = lf and s = s] show ?thesis
      by (simp add: st_table_block_def st_bind_def)
  next
    case (Inr i)
    with Pair st_apply_filters_result [where r = r and cf = cf and lf = lf and s = s]
    have i: "length s \<le> i" "i < length s1"
      and f: "apply_filters (object s r) cf lf = Inr (object s1 i)"
      by simp_all
    from st_display_table_result [OF i(2), where n = n] obtain shown s2
      where d: "st_display_table i n s1 = (Inr shown, s2)" and "length s1 \<le> shown"
        and "object s2 shown = display_table (object s1 i) n" and "object s2 i = object s1 i"
      by blast
    moreover from i have "length s \<le> length s1"
      by simp
    ultimately show ?thesis
      using Pair Inr i f by (simp add: st_table_block_def st_bind_def st_ret_def)
  qed
qed

lemma multiselect_none: "multiselect [] chosen = []"
  by (simp add: multiselect_def)

lemma apply_filters_ok:
  assumes "cf \<noteq> [] \<Longrightarrow> has_col df ''category''" and "lf \<noteq> [] \<Longrightarrow> has_col df ''location''"
  shows "\<exists>f. apply_filters df cf lf = Inr f"
  using assms
  by (auto simp: apply_filters_def filter_isin_def copy_def select_rows_def has_col_def)

lemma orders_table_shows:
  "\<exists>cs ls f. category_options d = Inr cs \<and> location_options d = Inr ls
     \<and> apply_filters d (multiselect cs (categories_chosen u))
          (multiselect ls (locations_chosen u)) = Inr f
     \<and> orders_table d u =
          ([Dataframe (display_table f (limit_display u)),
            Caption (min (limit_display u) (len f)) (len f)],
           Inr d)"
proof -
  obtain cs where cs: "category_options d = Inr cs" and c: "\<not> has_col d ''category'' \<Longrightarrow> cs = []"
    by (cases "has_col d ''category''")
      (simp_all add: category_options_def unique_def column_def bind_def)
  obtain ls where ls: "location_options d = Inr ls" and l: "\<not> has_col d ''location'' \<Longrightarrow> ls = []"
    by (cases "has_col d ''location''")
      (simp_all add: location_options_def unique_def column_def bind_def)
  have "multiselect cs (categories_chosen u) \<noteq> [] \<Longrightarrow> has_col d ''category''"
    using c multiselect_none by metis
  moreover have "multiselect ls (locations_chosen u) \<noteq> [] \<Longrightarrow> has_col d ''location''"
    using l multiselect_none by metis
  ultimately obtain f where f: "apply_filters d (multiselect cs (categories_chosen u))
          (multiselect ls (locations_chosen u)) = Inr f"
    using apply_filters_ok by blast
  with cs ls have "orders_table d u =
          ([Dataframe (display_table f (limit_display u)),
            Caption (min (limit_display u) (len f)) (len f)],
           Inr d)"
    by (simp add: orders_table_def lift_def io_bind_ok seq_ok emit_def ret_def)
  with cs ls f show ?thesis
    by blast
qed

lemma metric_event_table:
  "filter metric_event [Dataframe t, Caption a b] = []"
  by (simp add: metric_event_def)

lemma dashboard_trace:
  "fst (io_bind (tabs cfg w fetched) (\<lambda>d. orders_table d u)) =
     fst (tabs cfg w fetched)
       @ (case snd (tabs cfg w fetched) of Inl e \<Rightarrow> [] | Inr d \<Rightarrow> fst (orders_table d u))"
  by (rule fst_io_bind_split)

lemma dashboard_metrics:
  "filter metric_event (fst (io_bind (tabs cfg w fetched) (\<lambda>d. orders_table d u)))
     = filter metric_event (fst (tabs cfg w fetched))"
proof -
  have "filter metric_event (fst (orders_table d u)) = []" for d
    using orders_table_shows [of d u] by (auto simp: metric_event_def)
  then show ?thesis
    unfolding dashboard_trace by (simp split: sum.splits)
qed

lemma cell_set_cell: "cell (set_cell i v r) i = v"
  by (simp add: cell_def set_cell_def nth_append)

lemma index_of_absent: "c \<notin> set cs \<Longrightarrow> index_of c cs = length cs"
  by (induction cs) auto

lemma index_of_new: "c \<notin> set cs \<Longrightarrow> index_of c (cs @ [c]) = length cs"
  by (induction cs) auto

lemma col_values_assign:
  assumes "length vs = length (rows df)"
  shows "col_values (assign c vs df) c = vs"
proof -
  have i: "index_of c (columns (assign c vs df)) = index_of c (columns df)"
    by (simp add: assign_def has_col_def index_of_absent index_of_new)
  have "col_values (assign c vs df) c =
          map (\<lambda>(r, v). cell (set_cell (index_of c (columns df)) v r) (index_of c (columns df)))
            (zip (rows df) vs)"
    unfolding col_values_def i by (simp add: assign_def case_prod_beta)
  also have "\<dots> = map snd (zip (rows df) vs)"
    by (simp add: cell_set_cell case_prod_beta)
  also from assms have "\<dots> = vs"
    by simp
  finally show ?thesis .
qed

lemma map_err_length: "map_err f xs = Inr ys \<Longrightarrow> length ys = length xs"
  by (auto dest!: map_err_Inr simp: list_all2_lengthD)

lemma st_add_hour_result:
  assumes "r < length s"
  shows "st_add_hour r s =
           (case add_hour (object s r) of
              Inl e \<Rightarrow> (Inl e, s)
            | Inr d \<Rightarrow> (Inr (), s[r := d]))"
proof (cases "map_err to_datetime (col_values (object s r) ''processed_time'')")
  case (Inl e)
  then show ?thesis
    by (simp add: st_add_hour_def add_hour_def bind_def)
next
  case (Inr ts)
  from map_err_length [OF this] have "length ts = length (rows (object s r))"
    by (simp add: col_values_def)
  then have "col_values (assign ''processed_time'' ts (object s r)) ''processed_time'' = ts"
    by (rule col_values_assign)
  with Inr assms show ?thesis
    by (simp add: st_add_hour_def add_hour_def bind_def st_bind_def st_setitem_def object_def)
qed

lemma yields_ret: "P x \<Longrightarrow> yields P (ret x)"
  by (simp add: yields_def ret_def)

lemma yields_io_bind:
  assumes "yields Q m" and "\<And>v. Q v \<Longrightarrow> yields P (f v)"
  shows "yields P (io_bind m f)"
proof (cases "snd m")
  case (Inl e)
  then show ?thesis
    by (simp add: yields_def snd_io_bind)
next
  case (Inr v)
  with assms(1) have "Q v"
    by (simp add: yields_def)
  from assms(2) [OF this] Inr show ?thesis
    by (simp add: yields_def snd_io_bind)
qed

lemma yields_after: "(\<And>v. yields P (f v)) \<Longrightarrow> yields P (io_bind m f)"
  by (rule yields_io_bind [where Q = "\<lambda>v. True"]) (simp_all add: yields_def split: sum.splits)

lemma yields_seq: "yields P k \<Longrightarrow> yields P (seq m k)"
  unfolding seq_def by (rule yields_after)

lemma yields_if: "yields P a \<Longrightarrow> yields P b \<Longrightarrow> yields P (if c then a else b)"
  by simp

lemma yields_raise: "snd m = Inl e \<Longrightarrow> yields P (seq m k)"
  by (simp add: yields_def snd_seq)

lemmas yields_same = yields_after yields_seq yields_if yields_ret refl

lemma headline_yields: "yields (\<lambda>d. d = orders_df) (headline orders_df)"
  unfolding headline_def by (intro yields_same)

lemma vip_tab_yields: "yields (\<lambda>d. d = orders_df) (vip_tab orders_df)"
  unfolding vip_tab_def by (intro yields_same)

lemma anomaly_tab_yields: "yields (\<lambda>d. d = orders_df) (anomaly_tab orders_df)"
  unfolding anomaly_tab_def by (intro yields_same)

lemma add_hour_columns:
  assumes "add_hour orders_df = Inr d" and "has_col orders_df c"
  shows "has_col d c"
  using assms
  by (auto simp: add_hour_def bind_def assign_def has_col_def split: sum.splits)

lemma overview_yields:
  assumes "has_col orders_df c"
  shows "yields (\<lambda>d. has_col d c) (overview orders_df)"
  unfolding overview_def
proof (rule yields_io_bind [where Q = "\<lambda>d. has_col d c"])
  show "yields (\<lambda>d. has_col d c)
          (if has_col orders_df ''processed_time''
           then io_bind (lift (add_hour orders_df)) (\<lambda>orders_df.
                io_bind (lift (hourly_orders orders_df)) (\<lambda>hourly.
                seq (emit (Chart ''fig1'' hourly))
               (seq (emit (Chart ''fig2'' hourly))
                    (ret orders_df))))
           else ret orders_df)"
  proof (intro yields_if yields_ret assms)
    have "yields (\<lambda>d. has_col d c) (lift (add_hour orders_df))"
      using assms by (auto simp: yields_def lift_def add_hour_columns split: sum.splits)
    then show "yields (\<lambda>d. has_col d c)
          (io_bind (lift (add_hour orders_df)) (\<lambda>orders_df.
                io_bind (lift (hourly_orders orders_df)) (\<lambda>hourly.
                seq (emit (Chart ''fig1'' hourly))
               (seq (emit (Chart ''fig2'' hourly))
                    (ret orders_df)))))"
      by (rule yields_io_bind) (intro yields_after yields_seq yields_ret)
  qed
next
  fix v
  assume "has_col v c"
  then show "yields (\<lambda>d. has_col d c)
          (io_bind (lift (category_counts v)) (\<lambda>counts.
          seq (scaled ''Blues'' (Chart ''fig3'' counts))
         (io_bind (lift (category_revenue v)) (\<lambda>revenue.
          seq (scaled ''Greens'' (Chart ''fig4'' revenue))
         (seq (emit (Chart ''fig5'' v))
              (ret v))))))"
    by (intro yields_after yields_seq yields_ret)
qed

lemma no_sequential_RdYlGn: "snd (sequential_palette ''RdYlGn'') = Inl (AttributeError ''RdYlGn'')"
  by code_simp

lemma advanced_tab_raises:
  assumes "has_col orders_df ''satisfaction_level''" and "has_col orders_df ''category''"
  shows "\<exists>e. snd (advanced_tab orders_df) = Inl e"
  using assms
  by (auto simp: advanced_tab_def snd_seq snd_io_bind no_sequential_RdYlGn split: sum.splits)

lemma tabs_raise:
  assumes "has_col orders_df ''satisfaction_level''" and "has_col orders_df ''category''"
  shows "\<exists>e. snd (tabs cfg w orders_df) = Inl e"
proof -
  have adv: "yields (\<lambda>d. False) (advanced_tab d)"
    if "has_col d ''satisfaction_level''" and "has_col d ''category''" for d
    using advanced_tab_raises [OF that] by (auto simp: yields_def)
  have "yields (\<lambda>d. has_col d ''satisfaction_level'' \<and> has_col d ''category'')
          (overview orders_df)"
    using overview_yields [OF assms(1)] overview_yields [OF assms(2)]
    by (simp add: yields_def split: sum.splits)
  then have "yields (\<lambda>d. False) (io_bind (overview orders_df) (\<lambda>orders_df.
     seq (age_tab cfg w)
    (seq (gender_tab cfg w)
    (seq (location_tab cfg w)
    (seq (combination_tab cfg w)
    (io_bind (vip_tab orders_df) (\<lambda>orders_df.
     io_bind (anomaly_tab orders_df) (\<lambda>orders_df.
       advanced_tab orders_df))))))))"
  proof (rule yields_io_bind)
    fix d
    assume d: "has_col d ''satisfaction_level'' \<and> has_col d ''category''"
    have "yields (\<lambda>d. False) (io_bind (vip_tab d) (\<lambda>orders_df.
            io_bind (anomaly_tab orders_df) (\<lambda>orders_df. advanced_tab orders_df)))"
    proof (rule yields_io_bind [OF vip_tab_yields])
      fix d3
      assume "d3 = d"
      with d show "yields (\<lambda>d. False)
                     (io_bind (anomaly_tab d3) (\<lambda>orders_df. advanced_tab orders_df))"
        by (intro yields_io_bind [OF anomaly_tab_yields]) (simp add: adv)
    qed
    then show "yields (\<lambda>d. False)
       (seq (age_tab cfg w)
       (seq (gender_tab cfg w)
       (seq (location_tab cfg w)
       (seq (combination_tab cfg w)
       (io_bind (vip_tab d) (\<lambda>orders_df.
        io_bind (anomaly_tab orders_df) (\<lambda>orders_df.
          advanced_tab orders_df)))))))"
      by (intro yields_seq)
  qed
  then have "yields (\<lambda>d. False) (tabs cfg w orders_df)"
    unfolding tabs_def
    by (intro yields_io_bind [OF headline_yields]) simp
  then show ?thesis
    by (cases "snd (tabs cfg w orders_df)") (simp_all add: yields_def)
qed

text \<open>
  On a fetched table the cycle does not reach the table of the latest orders: the table
  has the columns \<^verbatim>\<open>satisfaction_level\<close> and \<^verbatim>\<open>category\<close>, and a tab before the table
  raises, at line 913 at the latest. The cycle ends in the handler of line 1010.
\<close>

lemma table_block_not_reached:
  assumes fetched: "fetch_latest_orders cfg w (Some 10000) = (es, Inr orders_df)"
    and nonempty: "\<not> frame_empty orders_df"
  shows "\<exists>e. render cfg w u = (es @ fst (tabs cfg w orders_df), Inl e)"
proof -
  from fetched_columns [OF fetched nonempty]
  have "has_col orders_df ''satisfaction_level''" and "has_col orders_df ''category''"
    by (simp_all add: has_col_def order_columns_def)
  from tabs_raise [OF this] obtain e where "snd (tabs cfg w orders_df) = Inl e"
    by blast
  then have "tabs cfg w orders_df = (fst (tabs cfg w orders_df), Inl e)"
    by (cases "tabs cfg w orders_df") simp
  then have "io_bind (tabs cfg w orders_df) (\<lambda>orders_df. orders_table orders_df u)
               = (fst (tabs cfg w orders_df), Inl e)"
    by (metis io_bind_err)
  with fetched nonempty show ?thesis
    by (simp add: render_def io_bind_ok)
qed

text \<open>
  C7, as the code has it. The filters and the display cap work on new frames. Whatever the
  chosen categories, locations and cap, and whether or not the block raises, every frame
  that existed before the block, the raw table among them, is after it the same object
  with the same columns and rows. The filtered frame is a new object and holds what the
  filter engine returns on the raw table; the frame shown is a new object and holds its
  displayed columns and first rows. The block shows that table and its caption and
  nothing else: the elements of a cycle before the table are those of the headline and the
  tabs, which are computed before the block and without the filters and the cap, and the
  block adds no metric to them. (The raw table is assigned into elsewhere, by the overview
  tab: see the theorem after the witness.)
\<close>

theorem filtering_leaves_orders_unchanged:
  assumes block: "st_table_block orders_df categories_filter locations_filter n s = (r, s')"
    and held: "orders_df < length s"
  shows "take (length s) s' = s
       \<and> object s' orders_df = object s orders_df
       \<and> (case r of
            Inl e \<Rightarrow>
              apply_filters (object s orders_df) categories_filter locations_filter = Inl e
          | Inr (filtered_df, shown) \<Rightarrow>
              length s \<le> filtered_df \<and> length s \<le> shown
            \<and> apply_filters (object s orders_df) categories_filter locations_filter
                = Inr (object s' filtered_df)
            \<and> object s' shown = display_table (object s' filtered_df) n)
       \<and> (\<exists>cs ls f. category_options d = Inr cs \<and> location_options d = Inr ls
            \<and> apply_filters d (multiselect cs (categories_chosen u))
                 (multiselect ls (locations_chosen u)) = Inr f
            \<and> orders_table d u =
                 ([Dataframe (display_table f (limit_display u)),
                   Caption (min (limit_display u) (len f)) (len f)],
                  Inr d))
       \<and> fst (io_bind (tabs cfg w fetched) (\<lambda>d. orders_table d u)) =
           fst (tabs cfg w fetched)
             @ (case snd (tabs cfg w fetched) of
                  Inl e \<Rightarrow> []
                | Inr d \<Rightarrow> fst (orders_table d u))
       \<and> filter metric_event (fst (io_bind (tabs cfg w fetched) (\<lambda>d. orders_table d u)))
           = filter metric_event (fst (tabs cfg w fetched))"
proof -
  from st_table_block_appends [of orders_df categories_filter locations_filter n s] block
  obtain t where t: "s' = s @ t"
    by auto
  then have 1: "take (length s) s' = s"
    by simp
  from t held have 2: "object s' orders_df = object s orders_df"
    by (simp add: object_append)
  from st_table_block_result [OF held, where cf = categories_filter and lf = locations_filter
      and n = n] block
  have 3: "case r of
            Inl e \<Rightarrow>
              apply_filters (object s orders_df) categories_filter locations_filter = Inl e
          | Inr (filtered_df, shown) \<Rightarrow>
              length s \<le> filtered_df \<and> length s \<le> shown
            \<and> apply_filters (object s orders_df) categories_filter locations_filter
                = Inr (object s' filtered_df)
            \<and> object s' shown = display_table (object s' filtered_df) n"
    by simp
  note 4 = orders_table_shows [of d u]
  note 5 = dashboard_trace [of cfg w fetched u]
  note 6 = dashboard_metrics [of cfg w fetched u]
  from 1 2 3 4 5 6 show ?thesis
    by (intro conjI)
qed

theorem filtering_leaves_orders_unchanged_witness:
  "0 < length [hourly_stamped_orders]
   \<and> fst (st_table_block 0 [Str ''Shoes''] [] 100 [hourly_stamped_orders]) = Inr (2, 4)
   \<and> take 1 (snd (st_table_block 0 [Str ''Shoes''] [] 100 [hourly_stamped_orders]))
       = [hourly_stamped_orders]
   \<and> object (snd (st_table_block 0 [Str ''Shoes''] [] 100 [hourly_stamped_orders])) 0
       = hourly_stamped_orders
   \<and> apply_filters hourly_stamped_orders [Str ''Shoes''] []
       = Inr (object (snd (st_table_block 0 [Str ''Shoes''] [] 100 [hourly_stamped_orders])) 2)
   \<and> object (snd (st_table_block 0 [Str ''Shoes''] [] 100 [hourly_stamped_orders])) 4
       = \<lparr>columns = display_columns,
          rows = [[Time 4000, Str ''c1'', Str ''Shoes'', Str ''boots'', Num 10, Num 9,
                   Str ''Premium'', Str ''VIP'', Str ''Satisfied'', Bool True, Str ''Lyon'',
                   Num 4]]\<rparr>
   \<and> orders_table hourly_stamped_orders sample_ui =
       ([Dataframe \<lparr>columns = display_columns,
            rows = [[Time 4000, Str ''c1'', Str ''Shoes'', Str ''boots'', Num 10, Num 9,
                     Str ''Premium'', Str ''VIP'', Str ''Satisfied'', Bool True, Str ''Lyon'',
                     Num 4]]\<rparr>,
         Caption 1 1],
        Inr hourly_stamped_orders)"
proof -
  let ?x = "st_table_block 0 [Str ''Shoes''] [] 100 [hourly_stamped_orders]"
  have h: "0 < length [hourly_stamped_orders]"
    by simp
  have b: "?x = (fst ?x, snd ?x)"
    by simp
  have r: "fst ?x = Inr (2, 4)"
    by code_simp
  note t = filtering_leaves_orders_unchanged [OF b h]
  from t have 1: "take 1 (snd ?x) = [hourly_stamped_orders]"
    by simp
  from t have 2: "object (snd ?x) 0 = hourly_stamped_orders"
    by (simp add: object_def)
  from t [THEN conjunct2, THEN conjunct2, THEN conjunct1]
  have 3: "apply_filters hourly_stamped_orders [Str ''Shoes''] [] = Inr (object (snd ?x) 2)"
    and "object (snd ?x) 4 = display_table (object (snd ?x) 2) 100"
    by (simp_all add: r object_def)
  moreover have "display_table (object (snd ?x) 2) 100 =
        \<lparr>columns = display_columns,
          rows = [[Time 4000, Str ''c1'', Str ''Shoes'', Str ''boots'', Num 10, Num 9,
                   Str ''Premium'', Str ''VIP'', Str ''Satisfied'', Bool True, Str ''Lyon'',
                   Num 4]]\<rparr>"
    by code_simp
  ultimately have 4: "object (snd ?x) 4 =
        \<lparr>columns = display_columns,
          rows = [[Time 4000, Str ''c1'', Str ''Shoes'', Str ''boots'', Num 10, Num 9,
                   Str ''Premium'', Str ''VIP'', Str ''Satisfied'', Bool True, Str ''Lyon'',
                   Num 4]]\<rparr>"
    by simp
  have 5: "orders_table hourly_stamped_orders sample_ui =
       ([Dataframe \<lparr>columns = display_columns,
            rows = [[Time 4000, Str ''c1'', Str ''Shoes'', Str ''boots'', Num 10, Num 9,
                     Str ''Premium'', Str ''VIP'', Str ''Satisfied'', Bool True, Str ''Lyon'',
                     Num 4]]\<rparr>,
         Caption 1 1],
        Inr hourly_stamped_orders)"
    by code_simp
  from h r 1 2 3 4 5 show ?thesis
    by (intro conjI)
qed

text \<open>
  The claim as written fails: the raw table is assigned into after the fetch. The fetch
  returns a table with the column \<^verbatim>\<open>processed_time\<close>, and the two assignments of the
  overview tab (lines 374-375) change that object: after them it has the column
  \<^verbatim>\<open>hour\<close>, and the tabs that follow work on the changed table.
\<close>

theorem overview_adds_hour_column:
  "fetch_latest_orders sample_config sample_warehouse (Some 10000)
     = ([Query ''p.d.orders''], Inr \<lparr>columns = order_columns, rows = [newer_order, older_order]\<rparr>)
   \<and> st_add_hour 0 [\<lparr>columns = order_columns, rows = [newer_order, older_order]\<rparr>]
       = (Inr (), [hourly_stamped_orders])
   \<and> columns (object [\<lparr>columns = order_columns, rows = [newer_order, older_order]\<rparr>] 0)
       = order_columns
   \<and> columns (object [hourly_stamped_orders] 0) = order_columns @ [''hour'']
   \<and> object [hourly_stamped_orders] 0
       \<noteq> object [\<lparr>columns = order_columns, rows = [newer_order, older_order]\<rparr>] 0
   \<and> snd (overview \<lparr>columns = order_columns, rows = [newer_order, older_order]\<rparr>)
       = Inr hourly_stamped_orders"
proof -
  let ?df = "\<lparr>columns = order_columns, rows = [newer_order, older_order]\<rparr>"
  have 1: "fetch_latest_orders sample_config sample_warehouse (Some 10000)
             = ([Query ''p.d.orders''], Inr ?df)"
    by code_simp
  have 2: "st_add_hour 0 [?df] = (Inr (), [hourly_stamped_orders])"
    by code_simp
  have 3: "columns (object [?df] 0) = order_columns"
    by (simp add: object_def)
  have 4: "columns (object [hourly_stamped_orders] 0) = order_columns @ [''hour'']"
    by (simp add: object_def hourly_stamped_orders_def)
  from 3 4 have 5: "object [hourly_stamped_orders] 0 \<noteq> object [?df] 0"
    by auto
  have 6: "snd (overview ?df) = Inr hourly_stamped_orders"
    by code_simp
  from 1 2 3 4 5 6 show ?thesis
    by (intro conjI)
qed

end
